theory Spec2Isabelle
  imports Main "HOL-Library.Sublist"
begin

text \<open>
  A shallow embedding of the decision point's sources that the properties below are
  about: the dateTime attribute, the Attributes loader, the attribute designator with
  its lookup cache, the \<^verbatim>\<open>not\<close> function and the PDP front
  (\<^verbatim>\<open>evaluates\<close>, \<^verbatim>\<open>evaluateCallBack\<close>, \<^verbatim>\<open>parseRes\<close>). Functions of the
  repository that are not among the sources (the request factory, the policy
  evaluator, the constants modules) and library calls (moment, the DOM parser) are
  parameters of the functions that call them.
\<close>

section \<open>JavaScript values and exceptions\<close>

text \<open>
  A \<^verbatim>\<open>throw\<close> of the source is the left injection of a sum: every function of the
  embedding that can throw returns \<open>js_error + 'a\<close>. \<open>Error msg\<close> is
  \<^verbatim>\<open>new Error(msg)\<close>; \<open>TypeError\<close> is what the engine raises when a property of
  \<^verbatim>\<open>undefined\<close> or \<^verbatim>\<open>null\<close> is read.
\<close>

datatype js_error = Error string | TypeError string

datatype js_value =
    JsUndefined
  | JsNull
  | JsBool bool
  | JsNumber int
  | JsNaN
  | JsString string
  | JsObject nat

text \<open>\<^verbatim>\<open>Boolean(v)\<close>, the truthiness that \<^verbatim>\<open>!v\<close> and \<^verbatim>\<open>if (v)\<close> test.\<close>

fun js_truthy :: "js_value \<Rightarrow> bool" where
  "js_truthy JsUndefined = False"
| "js_truthy JsNull = False"
| "js_truthy (JsBool b) = b"
| "js_truthy (JsNumber n) = (n \<noteq> 0)"
| "js_truthy JsNaN = False"
| "js_truthy (JsString s) = (s \<noteq> [])"
| "js_truthy (JsObject a) = True"

text \<open>
  The remainder operator \<^verbatim>\<open>%\<close> on integers truncates towards zero: the result has
  the sign of the dividend (\<^verbatim>\<open>-999 % 1000\<close> is \<^verbatim>\<open>-999\<close>). The divisors in the
  sources are non-zero constants.
\<close>

definition js_rem :: "int \<Rightarrow> int \<Rightarrow> int" where
  "js_rem a b = sgn a * (\<bar>a\<bar> mod \<bar>b\<bar>)"

section \<open>pdp/xacml/attr/dateTimeAttribute.js\<close>

definition NANOS_PER_MILLI :: int where "NANOS_PER_MILLI = 1000000"
definition MILLIS_PER_SECOND :: int where "MILLIS_PER_SECOND = 1000"
definition NANOS_PER_SECOND :: int where "NANOS_PER_SECOND = NANOS_PER_MILLI * MILLIS_PER_SECOND"

text \<open>
  A \<^verbatim>\<open>Date\<close> is its time value, the milliseconds since the epoch (negative before
  1970). The fields of a \<^verbatim>\<open>DateTimeAttribute\<close> are the four that \<^verbatim>\<open>init\<close> assigns.
\<close>

record DateTimeAttribute =
  dt_value :: int
  dt_nanoseconds :: int
  dt_timeZone :: int
  dt_defaultedTimeZone :: int

text \<open>
  \<^verbatim>\<open>combineNanos(date, nanoseconds)\<close>. The source also computes a corrected
  \<^verbatim>\<open>millis\<close> and assigns \<^verbatim>\<open>date = new Date(millis)\<close>, which rebinds the
  parameter only; the function's one effect is the number it returns.
\<close>

definition combineNanos :: "int \<Rightarrow> int \<Rightarrow> int" where
  "combineNanos date nanoseconds =
     (let millis = date;
          milliCarry = js_rem millis MILLIS_PER_SECOND
      in if milliCarry = 0 \<and> nanoseconds > 0 \<and> nanoseconds < NANOS_PER_SECOND
         then nanoseconds
         else (let nanoTemp = nanoseconds + milliCarry * NANOS_PER_MILLI;
                   nanoResult = js_rem nanoTemp NANOS_PER_SECOND
               in nanoResult))"

definition DateTimeAttribute_init :: "int \<Rightarrow> int \<Rightarrow> int \<Rightarrow> int \<Rightarrow> DateTimeAttribute" where
  "DateTimeAttribute_init date nanoseconds timeZone defaultedTimeZone =
     \<lparr> dt_value = date,
       dt_nanoseconds = combineNanos date nanoseconds,
       dt_timeZone = timeZone,
       dt_defaultedTimeZone = defaultedTimeZone \<rparr>"

text \<open>
  \<^verbatim>\<open>equals(date)\<close>: the body is the comment \<^verbatim>\<open>// compare date time here\<close>
  followed by \<^verbatim>\<open>throw new Error()\<close>.
\<close>

definition DateTimeAttribute_equals ::
  "DateTimeAttribute \<Rightarrow> DateTimeAttribute \<Rightarrow> js_error + bool" where
  "DateTimeAttribute_equals this date = Inl (Error [])"

subsection \<open>The lexical check of getInstance\<close>

text \<open>
  \<^verbatim>\<open>\d\<close> is an ASCII digit. Each piece of the regular expression
  \<^verbatim>\<open>/^\d{4}-\d{2}-\d{2}T\d{2}:\d{2}:\d{2}(?:\.\d+)?(?:Z|[+\-]\d{2}:\d{2})$/\<close>
  is a function that consumes a prefix and returns the rest, or \<open>None\<close> when the
  piece does not match there.
\<close>

definition is_digit :: "char \<Rightarrow> bool" where
  "is_digit c = (c \<in> set ''0123456789'')"

fun digitsN :: "nat \<Rightarrow> string \<Rightarrow> string option" where
  "digitsN 0 s = Some s"
| "digitsN (Suc n) [] = None"
| "digitsN (Suc n) (c # cs) = (if is_digit c then digitsN n cs else None)"

fun lit :: "char \<Rightarrow> string \<Rightarrow> string option" where
  "lit a [] = None"
| "lit a (c # cs) = (if c = a then Some cs else None)"

definition dt_prefix :: "string \<Rightarrow> string option" where
  "dt_prefix s =
     Option.bind (Option.bind (Option.bind (Option.bind (Option.bind (Option.bind
       (Option.bind (Option.bind (Option.bind (Option.bind
         (digitsN 4 s) (lit (CHR ''-''))) (digitsN 2)) (lit (CHR ''-''))) (digitsN 2))
         (lit (CHR ''T''))) (digitsN 2)) (lit (CHR '':''))) (digitsN 2)) (lit (CHR '':'')))
         (digitsN 2)"

text \<open>
  \<^verbatim>\<open>(?:\.\d+)?\<close> is greedy. What follows it must be the whole timezone designator,
  which starts with \<^verbatim>\<open>Z\<close>, \<^verbatim>\<open>+\<close> or \<^verbatim>\<open>-\<close>: giving back a digit or skipping a
  present fraction can never make the rest match, so the greedy choice is the only one.
\<close>

definition opt_fraction :: "string \<Rightarrow> string" where
  "opt_fraction s =
     (case s of
        [] \<Rightarrow> s
      | c # cs \<Rightarrow>
          if c = CHR ''.'' \<and> takeWhile is_digit cs \<noteq> [] then dropWhile is_digit cs else s)"

text \<open>\<^verbatim>\<open>(?:Z|[+\-]\d{2}:\d{2})$\<close>: the whole of what is left.\<close>

definition tz_designator :: "string \<Rightarrow> bool" where
  "tz_designator s =
     (s = ''Z'' \<or>
      (case s of
         [sg, h1, h2, c, m1, m2] \<Rightarrow>
           (sg = CHR ''+'' \<or> sg = CHR ''-'') \<and> is_digit h1 \<and> is_digit h2 \<and>
           c = CHR '':'' \<and> is_digit m1 \<and> is_digit m2
       | _ \<Rightarrow> False))"

definition dtRegex_test :: "string \<Rightarrow> bool" where
  "dtRegex_test s =
     (case dt_prefix s of None \<Rightarrow> False | Some r \<Rightarrow> tz_designator (opt_fraction r))"


subsection \<open>getInstance\<close>

text \<open>
  What \<^verbatim>\<open>getInstance(value)\<close> can be handed: a string, an object (with a
  \<^verbatim>\<open>text()\<close> function returning a string, and/or a \<^verbatim>\<open>textContent\<close> property),
  \<^verbatim>\<open>null\<close>, or any other primitive, of which only \<^verbatim>\<open>typeof\<close> is read.
\<close>

datatype dt_input =
    DtString string
  | DtObject (obj_text: "string option") (obj_textContent: "string option")
  | DtNull
  | DtOther (typeof_name: string)

text \<open>
  The search \<^verbatim>\<open>value.match(/>([^<]+)</)\<close> returns the group of the leftmost match: a
  closing angle bracket, then the longest non-empty run of characters other than the
  opening angle bracket, then an opening angle bracket.
\<close>

fun xml_text_match :: "string \<Rightarrow> string option" where
  "xml_text_match [] = None"
| "xml_text_match (c # cs) =
     (if c = CHR ''>'' \<and> takeWhile (\<lambda>x. x \<noteq> CHR ''<'') cs \<noteq> [] \<and>
         dropWhile (\<lambda>x. x \<noteq> CHR ''<'') cs \<noteq> []
      then Some (takeWhile (\<lambda>x. x \<noteq> CHR ''<'') cs)
      else xml_text_match cs)"

text \<open>The first three steps of \<^verbatim>\<open>getInstance\<close>: the string that is then parsed.\<close>

fun lexical_text :: "dt_input \<Rightarrow> js_error + string" where
  "lexical_text (DtString s) =
     (if prefix ''<AttributeValue'' s
      then (case xml_text_match s of
              Some m \<Rightarrow> Inr m
            | None \<Rightarrow> Inl (Error ''Invalid XML format for dateTime value''))
      else Inr s)"
| "lexical_text (DtObject (Some t) tc) = Inr t"
| "lexical_text (DtObject None (Some tc)) =
     (if tc \<noteq> [] then Inr tc
      else Inl (Error ''Invalid dateTime value: object does not have text content''))"
| "lexical_text (DtObject None None) =
     Inl (Error ''Invalid dateTime value: object does not have text content'')"
| "lexical_text DtNull = Inl (Error ''Invalid dateTime value: expected string, got object'')"
| "lexical_text (DtOther ty) =
     Inl (Error (''Invalid dateTime value: expected string, got '' @ ty))"

text \<open>The nanoseconds: the digits between the first dot and the timezone, nine of them.\<close>

fun indexOf_from :: "string \<Rightarrow> string \<Rightarrow> nat \<Rightarrow> nat option" where
  "indexOf_from needle [] i = (if needle = [] then Some i else None)"
| "indexOf_from needle (c # cs) i =
     (if prefix needle (c # cs) then Some i else indexOf_from needle cs (Suc i))"

definition tz_match :: "string \<Rightarrow> string option" where
  "tz_match v =
     (let t6 = drop (length v - 6) v; t1 = drop (length v - 1) v
      in if tz_designator t6 then Some t6 else if tz_designator t1 then Some t1 else None)"

definition js_substring :: "string \<Rightarrow> nat \<Rightarrow> nat \<Rightarrow> string" where
  "js_substring s a b = take (max a b - min a b) (drop (min a b) s)"

definition digit_val :: "char \<Rightarrow> nat" where
  "digit_val c = length (takeWhile (\<lambda>d. d \<noteq> c) ''0123456789'')"

definition parseInt10 :: "string \<Rightarrow> int" where
  "parseInt10 s = int (foldl (\<lambda>acc c. 10 * acc + digit_val c) 0 s)"

definition extract_nanoseconds :: "string \<Rightarrow> int" where
  "extract_nanoseconds v =
     (if CHR ''.'' \<in> set v
      then (let dotIndex = length (takeWhile (\<lambda>c. c \<noteq> CHR ''.'') v);
                tzIndex = (case tz_match v of
                             None \<Rightarrow> None
                           | Some tz \<Rightarrow> indexOf_from tz v 0);
                frac = js_substring v (dotIndex + 1)
                         (case tzIndex of None \<Rightarrow> length v | Some i \<Rightarrow> i);
                digits = filter is_digit frac;
                nanoString = take 9 (digits @ replicate (9 - length digits) (CHR ''0''))
            in parseInt10 nanoString)
      else 0)"

text \<open>
  The moment library is a parameter: \<open>moment v\<close> is the strict ISO 8601 parse of
  \<open>v\<close>, \<open>None\<close> when \<^verbatim>\<open>isValid()\<close> is false and otherwise the time value of
  \<^verbatim>\<open>toDate()\<close> with \<^verbatim>\<open>utcOffset()\<close>.
\<close>

definition DateTimeAttribute_getInstance ::
  "(string \<Rightarrow> (int \<times> int) option) \<Rightarrow> dt_input \<Rightarrow> js_error + DateTimeAttribute" where
  "DateTimeAttribute_getInstance moment input =
     (case lexical_text input of
        Inl e \<Rightarrow> Inl e
      | Inr v \<Rightarrow>
          if \<not> dtRegex_test v then Inl (Error (''Malformed dateTime value: '' @ v))
          else (case moment v of
                  None \<Rightarrow> Inl (Error (''Malformed dateTime value: '' @ v))
                | Some (dateValue, timeZone) \<Rightarrow>
                    Inr (DateTimeAttribute_init dateValue (extract_nanoseconds v)
                           timeZone timeZone)))"

section \<open>pdp/xacml/xacml3/attributes.js\<close>

text \<open>
  The DOM that \<^verbatim>\<open>DOMParser\<close> hands over: an element has a name, attributes and child
  nodes; the \<^verbatim>\<open>nodeName\<close> of a text node is \<^verbatim>\<open>#text\<close>.
\<close>

datatype dom_node =
    Element string "(string \<times> string) list" "dom_node list"
  | TextNode string

fun nodeName :: "dom_node \<Rightarrow> string" where
  "nodeName (Element n as cs) = n"
| "nodeName (TextNode t) = ''#text''"

fun childNodes :: "dom_node \<Rightarrow> dom_node list" where
  "childNodes (Element n as cs) = cs"
| "childNodes (TextNode t) = []"

fun firstChild :: "dom_node \<Rightarrow> dom_node option" where
  "firstChild node = (case childNodes node of [] \<Rightarrow> None | c # cs \<Rightarrow> Some c)"

fun getAttribute :: "dom_node \<Rightarrow> string \<Rightarrow> string option" where
  "getAttribute (Element n as cs) name = map_of as name"
| "getAttribute (TextNode t) name = None"

text \<open>
  The names \<^verbatim>\<open>XACMLConstants\<close> gives the loader. The module is not among the
  sources, so the five names are a parameter of the loader.
\<close>

record xacml_constants =
  ATTRIBUTES_ELEMENT :: string
  ATTRIBUTES_CATEGORY :: string
  ATTRIBUTES_ID :: string
  ATTRIBUTES_CONTENT :: string
  ATTRIBUTE_ELEMENT :: string

record 'a Attributes =
  as_category :: "string option"
  as_content :: "dom_node option"
  as_attributes :: "'a list"
  as_id :: "string option"

text \<open>
  The loop over \<^verbatim>\<open>root.childNodes\<close>, with the two variables it updates.
  \<open>attr\<close> is \<^verbatim>\<open>Attribute.prototype.getInstance(node, XACML_VERSION_3_0)\<close>, which
  may throw.
\<close>

fun load_children ::
  "xacml_constants \<Rightarrow> (dom_node \<Rightarrow> js_error + 'a) \<Rightarrow> dom_node list \<Rightarrow>
   dom_node option \<Rightarrow> 'a list \<Rightarrow> js_error + (dom_node option \<times> 'a list)" where
  "load_children K attr [] content attributes = Inr (content, attributes)"
| "load_children K attr (node # nodes) content attributes =
     (if nodeName node = ATTRIBUTES_CONTENT K then
        (if content \<noteq> None then Inl (Error ''Too many content elements are defined.'')
         else load_children K attr nodes (firstChild node) attributes)
      else if nodeName node = ATTRIBUTE_ELEMENT K then
        (case attr node of
           Inl e \<Rightarrow> Inl e
         | Inr a \<Rightarrow> load_children K attr nodes content (attributes @ [a]))
      else load_children K attr nodes content attributes)"

text \<open>
  \<^verbatim>\<open>Attributes.prototype.getInstance\<close>, from \<^verbatim>\<open>doc.documentElement\<close> on
  (\<open>None\<close> when the document has no root element).
\<close>

definition Attributes_getInstance ::
  "xacml_constants \<Rightarrow> (dom_node \<Rightarrow> js_error + 'a) \<Rightarrow> dom_node option \<Rightarrow>
   js_error + 'a Attributes" where
  "Attributes_getInstance K attr documentElement =
     (case documentElement of
        None \<Rightarrow> Inl (TypeError ''Cannot read properties of undefined (reading nodeName)'')
      | Some root \<Rightarrow>
          if nodeName root \<noteq> ATTRIBUTES_ELEMENT K
          then Inl (Error (''Attributes object cannot be created '' @ [CHR 0x0A] @
                           ''    with root node of type: '' @ nodeName root))
          else (case load_children K attr (childNodes root) None [] of
                  Inl e \<Rightarrow> Inl e
                | Inr (content, attributes) \<Rightarrow>
                    if content \<noteq> None then Inl (Error ''need an implementation'')
                    else Inr \<lparr> as_category = getAttribute root (ATTRIBUTES_CATEGORY K),
                               as_content = content,
                               as_attributes = attributes,
                               as_id = getAttribute root (ATTRIBUTES_ID K) \<rparr>))"

definition getContent :: "'a Attributes \<Rightarrow> dom_node option" where
  "getContent this = as_content this"

section \<open>The attribute designator (src/unnamed, part 000)\<close>

text \<open>
  Modelled from the spec: \<^verbatim>\<open>Status\<close>, \<^verbatim>\<open>StatusDetail\<close> and
  \<^verbatim>\<open>MissingAttributeDetail\<close> are not among the sources. A status is
  \<open>(code, message, detail)\<close>, the standard codes are ok, missing-attribute,
  syntax-error and processing-error, and a missing-attribute detail carries
  \<open>(category, attributeId, dataType, issuer)\<close> descriptors. The records keep what
  the designator passes to their initialisers.
\<close>

datatype status_code =
  STATUS_OK | STATUS_MISSING_ATTRIBUTE | STATUS_SYNTAX_ERROR | STATUS_PROCESSING_ERROR

datatype xacml_version = XACML_VERSION_3_0

record MissingAttributeDetail =
  mad_id :: "string option"
  mad_type :: "string option"
  mad_category :: "string option"
  mad_issuer :: "string option"
  mad_attributeValues :: "js_value list option"
  mad_xacmlVersion :: xacml_version

record Status =
  st_code :: "status_code list"
  st_message :: "string option"
  st_detail :: "MissingAttributeDetail list option"

text \<open>
  An evaluation result, with the properties the sources read or write:
  \<^verbatim>\<open>indeterminate\<close>, \<^verbatim>\<open>attributeValues\<close> (the bag, \<open>None\<close> when the property
  is absent), \<^verbatim>\<open>value\<close>, \<^verbatim>\<open>status\<close> and \<^verbatim>\<open>wasInd\<close>.
\<close>

record evaluation_result =
  er_wasInd :: bool
  er_value :: js_value
  er_status :: "Status option"
  er_indeterminate :: bool
  er_attributeValues :: "js_value list option"

record AttributeDesignator =
  ad_type :: "string option"
  ad_id :: "string option"
  ad_mustBePresent :: bool
  ad_issuer :: "string option"
  ad_category :: "string option"

text \<open>
  An evaluation context: \<^verbatim>\<open>context.attributesSet\<close> is an object, compared by
  identity (its address), and \<^verbatim>\<open>context.getAttribute(type, id, issuer, category)\<close>
  is the context's attribute finder.
\<close>

record evaluation_ctx =
  attributesSet :: nat
  getAttribute_ctx ::
    "string option \<Rightarrow> string option \<Rightarrow> string option \<Rightarrow> string option \<Rightarrow> evaluation_result"

text \<open>
  The six variables of the module, declared by one \<^verbatim>\<open>let\<close> with no initialiser:
  each is \<^verbatim>\<open>undefined\<close> until the first assignment. They belong to the module, so
  every designator and every context reads and writes the same six.
\<close>

datatype 'a js_var = Undefined | Assigned 'a

record module_cache =
  cacheType :: "string option js_var"
  cacheId :: "string option js_var"
  cacheIssuer :: "string option js_var"
  cacheCategory :: "string option js_var"
  cacheResult :: "evaluation_result js_var"
  cacheAttributes :: "nat js_var"

definition initial_cache :: module_cache where
  "initial_cache =
     \<lparr> cacheType = Undefined, cacheId = Undefined, cacheIssuer = Undefined,
       cacheCategory = Undefined, cacheResult = Undefined, cacheAttributes = Undefined \<rparr>"

text \<open>The first statement of \<^verbatim>\<open>evaluate\<close>: the result, from the cache or the context.\<close>

definition cache_hit :: "AttributeDesignator \<Rightarrow> evaluation_ctx \<Rightarrow> module_cache \<Rightarrow> bool" where
  "cache_hit this ctx c =
     (cacheType c = Assigned (ad_type this) \<and> cacheId c = Assigned (ad_id this) \<and>
      cacheIssuer c = Assigned (ad_issuer this) \<and>
      cacheCategory c = Assigned (ad_category this) \<and>
      cacheAttributes c = Assigned (attributesSet ctx))"

definition lookup ::
  "AttributeDesignator \<Rightarrow> evaluation_ctx \<Rightarrow> module_cache \<Rightarrow> evaluation_result js_var \<times> module_cache"
  where
  "lookup this ctx c =
     (if cache_hit this ctx c then (cacheResult c, c)
      else (let result = getAttribute_ctx ctx (ad_type this) (ad_id this) (ad_issuer this)
                           (ad_category this)
            in (Assigned result,
                \<lparr> cacheType = Assigned (ad_type this), cacheId = Assigned (ad_id this),
                  cacheIssuer = Assigned (ad_issuer this),
                  cacheCategory = Assigned (ad_category this),
                  cacheResult = Assigned result,
                  cacheAttributes = Assigned (attributesSet ctx) \<rparr>)))"

definition missing_attribute_result :: "AttributeDesignator \<Rightarrow> evaluation_result" where
  "missing_attribute_result this =
     \<lparr> er_wasInd = True,
       er_value = JsNull,
       er_status = Some
         \<lparr> st_code = [STATUS_MISSING_ATTRIBUTE],
           st_message = Some ''Couldn't find AttributeDesignator attribute'',
           st_detail = Some
             [\<lparr> mad_id = ad_id this, mad_type = ad_type this,
                mad_category = ad_category this, mad_issuer = ad_issuer this,
                mad_attributeValues = None, mad_xacmlVersion = XACML_VERSION_3_0 \<rparr>] \<rparr>,
       er_indeterminate = True,
       er_attributeValues = None \<rparr>"

text \<open>
  \<^verbatim>\<open>AttributeDesignator.prototype.evaluate\<close>: what it returns or throws, and the
  module's variables afterwards. The logging between the lookup and the size test
  is inside its own \<^verbatim>\<open>try\<close> and changes nothing.
\<close>

definition AttributeDesignator_evaluate ::
  "AttributeDesignator \<Rightarrow> evaluation_ctx \<Rightarrow> module_cache \<Rightarrow>
   (js_error + evaluation_result) \<times> module_cache" where
  "AttributeDesignator_evaluate this ctx c =
     (case lookup this ctx c of
        (Undefined, c') \<Rightarrow>
          (Inl (TypeError ''Cannot read properties of undefined (reading indeterminate)''), c')
      | (Assigned result, c') \<Rightarrow>
          if er_indeterminate result then (Inr result, c')
          else (case er_attributeValues result of
                  None \<Rightarrow>
                    (Inl (TypeError ''Cannot read properties of undefined (reading size)''), c')
                | Some bag \<Rightarrow>
                    if length bag = 0 \<and> ad_mustBePresent this
                    then (Inr (missing_attribute_result this), c')
                    else (Inr result, c')))"

text \<open>
  The policy evaluator is not among the sources. As far as the designator cache can
  tell, an evaluation in a context is a strategy: it ends with an outcome, or it
  evaluates a designator and goes on according to the result. An exception of the
  designator ends the evaluation.
\<close>

datatype 'a plan = Decide 'a | Consult AttributeDesignator "evaluation_result \<Rightarrow> 'a plan"

primrec run_plan ::
  "'a plan \<Rightarrow> evaluation_ctx \<Rightarrow> module_cache \<Rightarrow> (js_error + 'a) \<times> module_cache" where
  "run_plan (Decide a) = (\<lambda>ctx c. (Inr a, c))"
| "run_plan (Consult d k) =
     (\<lambda>ctx c. case AttributeDesignator_evaluate d ctx c of
                 (Inl e, c') \<Rightarrow> (Inl e, c')
               | (Inr r, c') \<Rightarrow> run_plan (k r) ctx c')"

text \<open>The module's variables after a sequence of evaluations, one after another.\<close>

fun run_all :: "(evaluation_ctx \<times> 'a plan) list \<Rightarrow> module_cache \<Rightarrow> module_cache" where
  "run_all [] c = c"
| "run_all ((ctx, p) # rest) c = run_all rest (snd (run_plan p ctx c))"

text \<open>
  The cache is sound for a context when an entry keyed by that context's store, if
  the module holds one, is what the context's own finder answers for the entry's
  designator fields. (Entries keyed by other stores are of no concern to it.)
\<close>

definition cache_sound_for :: "evaluation_ctx \<Rightarrow> module_cache \<Rightarrow> bool" where
  "cache_sound_for ctx c =
     (case (cacheType c, cacheId c, cacheIssuer c, cacheCategory c, cacheAttributes c) of
        (Assigned t, Assigned i, Assigned iss, Assigned cat, Assigned a) \<Rightarrow>
          (if a = attributesSet ctx
           then cacheResult c = Assigned (getAttribute_ctx ctx t i iss cat)
           else True)
      | _ \<Rightarrow> True)"

text \<open>
  An evaluation is foreign to a context when it runs over another attribute store
  (another request), and harmless when it is foreign or runs in the very same context.
\<close>

definition harmless_for :: "evaluation_ctx \<Rightarrow> evaluation_ctx \<Rightarrow> bool" where
  "harmless_for ctx other = (attributesSet other \<noteq> attributesSet ctx \<or> other = ctx)"

section \<open>The not function (src/unnamed, part 001)\<close>

text \<open>
  An argument expression is what its \<^verbatim>\<open>evaluate(context)\<close> does. \<open>mk\<close> is
  \<^verbatim>\<open>EvaluationResult.prototype.getInstance\<close>, which wraps a boolean as a result and
  is not among the sources.
\<close>

type_synonym expression = "evaluation_ctx \<Rightarrow> js_error + evaluation_result"

datatype not_inputs =
    InputsArray "expression list"
  | InputsResult evaluation_result
  | InputsOther js_value

definition evaluateApply ::
  "(bool \<Rightarrow> evaluation_result) \<Rightarrow> expression list \<Rightarrow> evaluation_ctx \<Rightarrow>
   js_error + evaluation_result" where
  "evaluateApply mk val ctx =
     (case val of
        [] \<Rightarrow> Inl (TypeError ''Cannot read properties of undefined (reading evaluate)'')
      | e # es \<Rightarrow>
          (case e ctx of
             Inl err \<Rightarrow> Inl err
           | Inr resultFirst \<Rightarrow>
               if er_indeterminate resultFirst then Inr resultFirst
               else Inr (mk (\<not> js_truthy (er_value resultFirst)))))"

definition NotFunction_evaluate ::
  "(bool \<Rightarrow> evaluation_result) \<Rightarrow> not_inputs \<Rightarrow> evaluation_ctx \<Rightarrow> js_error + evaluation_result"
  where
  "NotFunction_evaluate mk inputs ctx =
     (case inputs of
        InputsArray xs \<Rightarrow> evaluateApply mk xs ctx
      | InputsResult v \<Rightarrow>
          if er_indeterminate v then Inr v else Inr (mk (\<not> js_truthy (er_value v)))
      | InputsOther v \<Rightarrow> Inr (mk (\<not> js_truthy v)))"

section \<open>The PDP front (src/unnamed, part 002)\<close>

text \<open>
  The decision codes \<^verbatim>\<open>Result.prototype.DECISION_*\<close> are not among the sources:
  the seven constants are a parameter.
\<close>

record decision_consts =
  DECISION_PERMIT :: int
  DECISION_DENY :: int
  DECISION_INDETERMINATE :: int
  DECISION_NOT_APPLICABLE :: int
  DECISION_INDETERMINATE_DENY :: int
  DECISION_INDETERMINATE_PERMIT :: int
  DECISION_INDETERMINATE_DENY_OR_PERMIT :: int

text \<open>
  \<^verbatim>\<open>parseRes\<close>: a \<^verbatim>\<open>switch\<close> takes the first case that is strictly equal to the
  response; with none, \<^verbatim>\<open>decision\<close> stays \<^verbatim>\<open>null\<close>.
\<close>

definition parseRes :: "decision_consts \<Rightarrow> int \<Rightarrow> string option" where
  "parseRes R response =
     (if response = DECISION_PERMIT R then Some ''Permit''
      else if response = DECISION_DENY R then Some ''Deny''
      else if response = DECISION_INDETERMINATE R then Some ''Indeterminate''
      else if response = DECISION_NOT_APPLICABLE R then Some ''NotApplicable''
      else if response = DECISION_INDETERMINATE_DENY R then Some ''Indeterminate''
      else if response = DECISION_INDETERMINATE_PERMIT R then Some ''Indeterminate''
      else if response = DECISION_INDETERMINATE_DENY_OR_PERMIT R then Some ''Indeterminate''
      else None)"

text \<open>The entries \<^verbatim>\<open>getFullObligationsFromPolicy\<close> builds from the policy files.\<close>

record designator_info =
  di_category :: "string option"
  di_attributeId :: "string option"
  di_dataType :: "string option"
  di_mustBePresent :: bool

record assignment =
  asg_attributeId :: "string option"
  asg_category :: "string option"
  asg_issuer :: "string option"
  asg_dataType :: "string option"
  asg_value :: "string option"
  asg_designator :: "designator_info option"

record full_obligation =
  fo_obligationId :: "string option"
  fo_fulfillOn :: "string option"
  fo_assignments :: "assignment list"

text \<open>
  A string or \<^verbatim>\<open>null\<close> in a condition is true when it is a non-empty string:
  \<open>truthy_str s\<close> is that string, or \<open>None\<close>.
\<close>

definition truthy_str :: "string option \<Rightarrow> string option" where
  "truthy_str s = (case s of None \<Rightarrow> None | Some t \<Rightarrow> if t \<noteq> [] then Some t else None)"

text \<open>
  \<^verbatim>\<open>toLowerCase\<close> on the ASCII letters (no other character becomes one of the
  letters of \<^verbatim>\<open>reason\<close>), and \<^verbatim>\<open>includes\<close>.
\<close>

definition to_lower_char :: "char \<Rightarrow> char" where
  "to_lower_char c =
     (case map_of (zip ''ABCDEFGHIJKLMNOPQRSTUVWXYZ'' ''abcdefghijklmnopqrstuvwxyz'') c of
        None \<Rightarrow> c
      | Some l \<Rightarrow> l)"

definition toLowerCase :: "string \<Rightarrow> string" where
  "toLowerCase s = map to_lower_char s"

definition str_includes :: "string \<Rightarrow> string \<Rightarrow> bool" where
  "str_includes s needle = (indexOf_from needle s 0 \<noteq> None)"

text \<open>The two nested loops that collect the reasons of a Deny.\<close>

definition assignment_reasons :: "assignment \<Rightarrow> string list" where
  "assignment_reasons a =
     (case truthy_str (asg_attributeId a) of
        None \<Rightarrow> []
      | Some attributeId \<Rightarrow>
          if str_includes (toLowerCase attributeId) ''reason''
          then (case truthy_str (asg_value a) of
                  Some v \<Rightarrow> [v]
                | None \<Rightarrow>
                    (case asg_designator a of
                       None \<Rightarrow> []
                     | Some d \<Rightarrow>
                         (case truthy_str (di_attributeId d) of
                            Some i \<Rightarrow> [i]
                          | None \<Rightarrow> [])))
          else [])"

definition collect_reasons :: "full_obligation list \<Rightarrow> string list" where
  "collect_reasons fullObligations =
     concat (map (\<lambda>obl. concat (map assignment_reasons (fo_assignments obl))) fullObligations)"

text \<open>
  The first result of \<^verbatim>\<open>this.pdp.evaluate(request).getResults()\<close>, with the properties
  \<^verbatim>\<open>evaluateCallBack\<close> reads.
\<close>

record ('o, 'a) response_ctx =
  rc_obligations :: "'o list option"
  rc_decision :: int
  rc_attributes :: 'a
  rc_status :: "Status option"

text \<open>
  What \<^verbatim>\<open>evaluateCallBack\<close> calls and the sources do not hold, or what depends on the
  file system: the request factory, the PDP, the scan of the policy files for the
  obligations returned, and \<^verbatim>\<open>JSON.stringify\<close>. Each of the first three may throw.
\<close>

record ('rq, 'o, 'a) luas_env =
  getRequestCtxWithRequest :: "string \<Rightarrow> js_error + 'rq"
  pdp_evaluate_getResults :: "'rq \<Rightarrow> js_error + ('o, 'a) response_ctx list"
  scanPolicyFiles :: "'o list \<Rightarrow> js_error + full_obligation list"
  stringify_obligations :: "full_obligation list \<Rightarrow> string"
  stringify_attributes :: "'a \<Rightarrow> string"
  decisions :: decision_consts

definition getFullObligationsFromPolicy ::
  "('rq, 'o, 'a) luas_env \<Rightarrow> 'o list option \<Rightarrow> js_error + full_obligation list" where
  "getFullObligationsFromPolicy env obligations =
     (case obligations of
        None \<Rightarrow> Inr []
      | Some obls \<Rightarrow> if length obls = 0 then Inr [] else scanPolicyFiles env obls)"

text \<open>The object \<^verbatim>\<open>evaluateCallBack\<close> returns.\<close>

record response =
  obligations :: string
  attributes :: string
  decision :: "string option"
  reason :: "string list option"
  message :: "string option"

text \<open>\<^verbatim>\<open>err.message || String(err)\<close> for an error object.\<close>

fun err_message_or_string :: "js_error \<Rightarrow> string" where
  "err_message_or_string (Error m) = (if m \<noteq> [] then m else ''Error'')"
| "err_message_or_string (TypeError m) = (if m \<noteq> [] then m else ''TypeError'')"

definition evaluateCallBack ::
  "('rq, 'o, 'a) luas_env \<Rightarrow> string \<Rightarrow> js_error + response" where
  "evaluateCallBack env requestFile =
     (case getRequestCtxWithRequest env requestFile of
        Inl err \<Rightarrow>
          Inr \<lparr> obligations = ''[]'', attributes = ''[]'', decision = Some ''Indeterminate'',
                reason = None, message = Some (err_message_or_string err) \<rparr>
      | Inr request \<Rightarrow>
          (case pdp_evaluate_getResults env request of
             Inl e \<Rightarrow> Inl e
           | Inr [] \<Rightarrow>
               Inl (TypeError ''Cannot read properties of undefined (reading obligations)'')
           | Inr (responseCtx # others) \<Rightarrow>
               (case getFullObligationsFromPolicy env (rc_obligations responseCtx) of
                  Inl e \<Rightarrow> Inl e
                | Inr fullObligations \<Rightarrow>
                    (let decisionStr = parseRes (decisions env) (rc_decision responseCtx);
                         reasons = (if decisionStr = Some ''Deny''
                                    then collect_reasons fullObligations else [])
                     in Inr \<lparr> obligations = stringify_obligations env fullObligations,
                              attributes = stringify_attributes env (rc_attributes responseCtx),
                              decision = decisionStr,
                              reason = (if length reasons > 0 then Some reasons else None),
                              message = (case rc_status responseCtx of
                                           None \<Rightarrow> None
                                         | Some st \<Rightarrow> st_message st) \<rparr>))))"

text \<open>
  \<^verbatim>\<open>evaluates\<close>: the \<^verbatim>\<open>catch\<close> traces the error and falls off the end of the
  function, so the caller receives \<^verbatim>\<open>undefined\<close> (\<open>None\<close>).
\<close>

definition evaluates ::
  "('rq, 'o, 'a) luas_env \<Rightarrow> string \<Rightarrow> js_error + response option" where
  "evaluates env request =
     (case evaluateCallBack env request of
        Inl err \<Rightarrow> Inr None
      | Inr result \<Rightarrow> Inr (Some result))"

section \<open>Notions of the statements\<close>

text \<open>
  The seven decision codes the evaluation can produce, and the four strings a
  response may carry as its decision.
\<close>

definition decision_codes :: "decision_consts \<Rightarrow> int list" where
  "decision_codes R =
     [DECISION_PERMIT R, DECISION_DENY R, DECISION_INDETERMINATE R, DECISION_NOT_APPLICABLE R,
      DECISION_INDETERMINATE_DENY R, DECISION_INDETERMINATE_PERMIT R,
      DECISION_INDETERMINATE_DENY_OR_PERMIT R]"

definition external_decisions :: "string option set" where
  "external_decisions =
     {Some ''Permit'', Some ''Deny'', Some ''NotApplicable'', Some ''Indeterminate''}"

text \<open>
  The part of a designator that the cache compares: type, id, issuer and category
  (\<^verbatim>\<open>mustBePresent\<close> is not compared).
\<close>

definition designator_key ::
  "AttributeDesignator \<Rightarrow> string option \<times> string option \<times> string option \<times> string option" where
  "designator_key d = (ad_type d, ad_id d, ad_issuer d, ad_category d)"

text \<open>
  A list of child nodes has content when one of them is a \<^verbatim>\<open>Content\<close> element
  with a first child.
\<close>

definition has_content :: "xacml_constants \<Rightarrow> dom_node list \<Rightarrow> bool" where
  "has_content K nodes =
     (\<exists>n \<in> set nodes. nodeName n = ATTRIBUTES_CONTENT K \<and> firstChild n \<noteq> None)"

text \<open>
  The response \<^verbatim>\<open>evaluateCallBack\<close> builds in its \<^verbatim>\<open>catch\<close> branch.
\<close>

definition indeterminate_response :: "js_error \<Rightarrow> response" where
  "indeterminate_response err =
     \<lparr> obligations = ''[]'', attributes = ''[]'', decision = Some ''Indeterminate'',
       reason = None, message = Some (err_message_or_string err) \<rparr>"

section \<open>Sample data\<close>

text \<open>
  Concrete designators, contexts, documents and collaborators, at which the
  theorems below are instantiated. \<open>store_ctx a bag\<close> is a context over the
  attribute store object \<open>a\<close> whose finder answers every lookup with \<open>bag\<close>;
  \<open>present_plan d\<close> is the evaluation that consults \<open>d\<close> once and decides whether
  it resolved; \<open>sample_env\<close> is a PDP front with the given request factory and
  PDP and no obligations.
\<close>

definition boolean_result :: "bool \<Rightarrow> evaluation_result" where
  "boolean_result b =
     \<lparr> er_wasInd = False, er_value = JsBool b, er_status = None, er_indeterminate = False,
       er_attributeValues = None \<rparr>"

definition bag_result :: "js_value list \<Rightarrow> evaluation_result" where
  "bag_result bag =
     \<lparr> er_wasInd = False, er_value = JsNull, er_status = None, er_indeterminate = False,
       er_attributeValues = Some bag \<rparr>"

definition task_expires :: "bool \<Rightarrow> AttributeDesignator" where
  "task_expires must =
     \<lparr> ad_type = Some ''http://www.w3.org/2001/XMLSchema#dateTime'',
       ad_id = Some ''task_expires'',
       ad_mustBePresent = must,
       ad_issuer = None,
       ad_category = Some ''urn:oasis:names:tc:xacml:3.0:attribute-category:resource'' \<rparr>"

definition current_dateTime :: AttributeDesignator where
  "current_dateTime =
     \<lparr> ad_type = Some ''http://www.w3.org/2001/XMLSchema#dateTime'',
       ad_id = Some ''urn:oasis:names:tc:xacml:1.0:environment:current-dateTime'',
       ad_mustBePresent = True,
       ad_issuer = None,
       ad_category = Some ''urn:oasis:names:tc:xacml:3.0:attribute-category:environment'' \<rparr>"

definition store_ctx :: "nat \<Rightarrow> js_value list \<Rightarrow> evaluation_ctx" where
  "store_ctx a bag = \<lparr> attributesSet = a, getAttribute_ctx = (\<lambda>t i iss cat. bag_result bag) \<rparr>"

definition present_plan :: "AttributeDesignator \<Rightarrow> bool plan" where
  "present_plan d = Consult d (\<lambda>r. Decide (\<not> er_indeterminate r))"

definition xacml3_names :: xacml_constants where
  "xacml3_names =
     \<lparr> ATTRIBUTES_ELEMENT = ''Attributes'', ATTRIBUTES_CATEGORY = ''Category'',
       ATTRIBUTES_ID = ''id'', ATTRIBUTES_CONTENT = ''Content'',
       ATTRIBUTE_ELEMENT = ''Attribute'' \<rparr>"

definition resource_with_content :: dom_node where
  "resource_with_content =
     Element ''Attributes''
       [(''Category'', ''urn:oasis:names:tc:xacml:3.0:attribute-category:resource'')]
       [Element ''Content'' [] [Element ''record'' [] [TextNode ''medical'']],
        Element ''Attribute'' [(''AttributeId'', ''task_id'')]
          [Element ''AttributeValue'' [] [TextNode ''medical'']]]"

definition resource_with_empty_content :: dom_node where
  "resource_with_empty_content =
     Element ''Attributes''
       [(''Category'', ''urn:oasis:names:tc:xacml:3.0:attribute-category:resource'')]
       [Element ''Content'' [] [],
        Element ''Attribute'' [(''AttributeId'', ''task_id'')]
          [Element ''AttributeValue'' [] [TextNode ''medical'']]]"

definition codes_0_to_6 :: decision_consts where
  "codes_0_to_6 =
     \<lparr> DECISION_PERMIT = 0, DECISION_DENY = 1, DECISION_INDETERMINATE = 2,
       DECISION_NOT_APPLICABLE = 3, DECISION_INDETERMINATE_DENY = 4,
       DECISION_INDETERMINATE_PERMIT = 5, DECISION_INDETERMINATE_DENY_OR_PERMIT = 6 \<rparr>"

definition sample_env ::
  "(string \<Rightarrow> js_error + unit) \<Rightarrow> (unit \<Rightarrow> js_error + (unit, unit) response_ctx list) \<Rightarrow>
   (unit, unit, unit) luas_env" where
  "sample_env factory pdp =
     \<lparr> getRequestCtxWithRequest = factory,
       pdp_evaluate_getResults = pdp,
       scanPolicyFiles = (\<lambda>obls. Inr []),
       stringify_obligations = (\<lambda>obls. ''[]''),
       stringify_attributes = (\<lambda>a. ''[]''),
       decisions = codes_0_to_6 \<rparr>"




section \<open>Properties\<close>

subsection \<open>dateTimeAttribute.js\<close>







lemma js_rem_nonneg:
  assumes a: "0 \<le> a" and b: "0 < b"
  shows "0 \<le> js_rem a b \<and> js_rem a b < b"
proof -
  have "js_rem a b = a mod b"
  proof (cases "a = 0")
    case True
    then show ?thesis by (simp add: js_rem_def)
  next
    case False
    with a have "sgn a = 1" by simp
    with a b show ?thesis by (simp add: js_rem_def)
  qed
  with b show ?thesis by simp
qed

text \<open>
  For a date at or after the epoch the value \<^verbatim>\<open>combineNanos\<close> returns is a
  sub-second count of nanoseconds.
\<close>

lemma combineNanos_range_from_epoch:
  assumes "0 \<le> date" and "0 \<le> nanoseconds"
  shows "0 \<le> combineNanos date nanoseconds \<and> combineNanos date nanoseconds < NANOS_PER_SECOND"
proof -
  have carry: "0 \<le> js_rem date MILLIS_PER_SECOND"
    using js_rem_nonneg[of date MILLIS_PER_SECOND] assms by (simp add: MILLIS_PER_SECOND_def)
  have pos: "0 < NANOS_PER_SECOND"
    by (simp add: NANOS_PER_SECOND_def NANOS_PER_MILLI_def MILLIS_PER_SECOND_def)
  have temp: "0 \<le> nanoseconds + js_rem date MILLIS_PER_SECOND * NANOS_PER_MILLI"
    using carry assms by (simp add: NANOS_PER_MILLI_def)
  have reduced:
    "0 \<le> js_rem (nanoseconds + js_rem date MILLIS_PER_SECOND * NANOS_PER_MILLI) NANOS_PER_SECOND
     \<and> js_rem (nanoseconds + js_rem date MILLIS_PER_SECOND * NANOS_PER_MILLI) NANOS_PER_SECOND
         < NANOS_PER_SECOND"
    by (rule js_rem_nonneg[OF temp pos])
  show ?thesis
  proof (cases "js_rem date MILLIS_PER_SECOND = 0 \<and> nanoseconds > 0
                \<and> nanoseconds < NANOS_PER_SECOND")
    case True
    then have "combineNanos date nanoseconds = nanoseconds"
      unfolding combineNanos_def Let_def by simp
    with True show ?thesis by simp
  next
    case False
    then have "combineNanos date nanoseconds =
        js_rem (nanoseconds + js_rem date MILLIS_PER_SECOND * NANOS_PER_MILLI) NANOS_PER_SECOND"
      unfolding combineNanos_def Let_def by (simp only: if_False)
    with reduced show ?thesis by simp
  qed
qed


text \<open>The lexical check at some texts, and the functions at the two texts used below.\<close>

lemma dtRegex_test_examples:
  "dtRegex_test ''2025-01-01T00:00:00Z'' \<and>
   dtRegex_test ''2025-01-01T00:00:00.25+05:30'' \<and>
   dtRegex_test ''2025-01-01T00:00:00-08:00'' \<and>
   \<not> dtRegex_test ''2025-01-01T00:00:00'' \<and>
   \<not> dtRegex_test ''2025-01-01T00:00:00.Z'' \<and>
   \<not> dtRegex_test ''2025-01-01 00:00:00Z'' \<and>
   \<not> dtRegex_test ''2025-01-01T00:00:00+0530'' \<and>
   \<not> dtRegex_test ''not-a-date''"
  by (simp add: dtRegex_test_def dt_prefix_def is_digit_def tz_designator_def
      opt_fraction_def eval_nat_numeral)


lemma dtRegex_test_before_epoch: "dtRegex_test ''1969-12-31T23:59:59.001Z''"
  by (simp add: dtRegex_test_def dt_prefix_def is_digit_def tz_designator_def
      opt_fraction_def eval_nat_numeral)

lemma combineNanos_before_epoch_value: "combineNanos (- 999) 1000000 = - 998000000"
  by (simp add: combineNanos_def js_rem_def MILLIS_PER_SECOND_def NANOS_PER_SECOND_def
      NANOS_PER_MILLI_def)

lemma replicate_six: "replicate 6 c = [c, c, c, c, c, c]"
  by (simp add: eval_nat_numeral)

lemma extract_nanoseconds_before_epoch:
  "extract_nanoseconds ''1969-12-31T23:59:59.001Z'' = 1000000"
  by (simp add: extract_nanoseconds_def tz_match_def tz_designator_def is_digit_def
      js_substring_def parseInt10_def digit_val_def Let_def replicate_six)








text \<open>
  Claim C5. \<^verbatim>\<open>DateTimeAttribute.equals\<close> does not compare: for every pair of values
  it throws an \<^verbatim>\<open>Error\<close> with no message, where the claim has it return whether the
  two instants are the same.
\<close>

theorem DateTimeAttribute_equals_throws:
  "DateTimeAttribute_equals a b = Inl (Error [])"
  by (simp add: DateTimeAttribute_equals_def)

text \<open>
  Claim C10. For a date before the epoch the remainder \<^verbatim>\<open>millis % 1000\<close> is negative
  and \<^verbatim>\<open>combineNanos\<close> returns a negative count: one millisecond past
  1969-12-31T23:59:59, as \<^verbatim>\<open>getInstance\<close> builds it from the text
  \<^verbatim>\<open>1969-12-31T23:59:59.001Z\<close>, stores \<open>-998000000\<close> nanoseconds. (From the epoch
  on the value is in range: \<open>combineNanos_range_from_epoch\<close>.)
\<close>

theorem combineNanos_negative_before_epoch:
  "combineNanos (- 999) 1000000 = - 998000000 \<and>
   DateTimeAttribute_getInstance
     (\<lambda>v. if v = ''1969-12-31T23:59:59.001Z'' then Some (- 999, 0) else None)
     (DtString ''1969-12-31T23:59:59.001Z'') =
   Inr \<lparr> dt_value = - 999, dt_nanoseconds = - 998000000, dt_timeZone = 0,
         dt_defaultedTimeZone = 0 \<rparr>"
  by (simp add: DateTimeAttribute_getInstance_def DateTimeAttribute_init_def
      combineNanos_before_epoch_value dtRegex_test_before_epoch extract_nanoseconds_before_epoch)

subsection \<open>attributes.js\<close>

lemma has_content_Cons:
  "has_content K (n # ns) =
     ((nodeName n = ATTRIBUTES_CONTENT K \<and> firstChild n \<noteq> None) \<or> has_content K ns)"
  by (auto simp: has_content_def)

lemma load_children_content:
  "load_children K attr nodes content as = Inr (c', as') \<Longrightarrow>
   content \<noteq> None \<or> has_content K nodes \<Longrightarrow> c' \<noteq> None"
proof (induction nodes arbitrary: content as)
  case Nil
  then show ?case by (simp add: has_content_def)
next
  case (Cons node nodes)
  show ?case
  proof (cases "nodeName node = ATTRIBUTES_CONTENT K")
    case True
    with Cons.prems(1) have none: "content = None"
      and rec: "load_children K attr nodes (firstChild node) as = Inr (c', as')"
      by (auto split: if_splits)
    from Cons.prems(2) none True have "firstChild node \<noteq> None \<or> has_content K nodes"
      by (simp add: has_content_Cons)
    with Cons.IH[OF rec] show ?thesis .
  next
    case False
    note notc = this
    with Cons.prems(2) have hyp: "content \<noteq> None \<or> has_content K nodes"
      by (simp add: has_content_Cons)
    show ?thesis
    proof (cases "nodeName node = ATTRIBUTE_ELEMENT K")
      case True
      with notc Cons.prems(1) obtain a where
        "load_children K attr nodes content (as @ [a]) = Inr (c', as')"
        by (auto split: sum.splits)
      from Cons.IH[OF this hyp] show ?thesis .
    next
      case False
      with notc Cons.prems(1) have "load_children K attr nodes content as = Inr (c', as')"
        by simp
      from Cons.IH[OF this hyp] show ?thesis .
    qed
  qed
qed

lemma load_children_error:
  "load_children K attr nodes content as = Inl e \<Longrightarrow>
   e = Error ''Too many content elements are defined.'' \<or> (\<exists>n \<in> set nodes. attr n = Inl e)"
proof (induction nodes arbitrary: content as)
  case Nil
  then show ?case by simp
next
  case (Cons node nodes)
  show ?case
  proof (cases "nodeName node = ATTRIBUTES_CONTENT K")
    case True
    show ?thesis
    proof (cases "content \<noteq> None")
      case True
      with \<open>nodeName node = ATTRIBUTES_CONTENT K\<close> Cons.prems show ?thesis by simp
    next
      case False
      with True Cons.prems
      have "load_children K attr nodes (firstChild node) as = Inl e" by simp
      from Cons.IH[OF this] show ?thesis by auto
    qed
  next
    case notc: False
    show ?thesis
    proof (cases "nodeName node = ATTRIBUTE_ELEMENT K")
      case True
      show ?thesis
      proof (cases "attr node")
        case (Inl e')
        with notc True Cons.prems have "e' = e" by simp
        with Inl show ?thesis by simp
      next
        case (Inr a)
        with notc True Cons.prems
        have "load_children K attr nodes content (as @ [a]) = Inl e" by simp
        from Cons.IH[OF this] show ?thesis by auto
      qed
    next
      case False
      with notc Cons.prems have "load_children K attr nodes content as = Inl e" by simp
      from Cons.IH[OF this] show ?thesis by auto
    qed
  qed
qed

text \<open>
  Claim C6, as amended. Loading an Attributes group that has a \<^verbatim>\<open>Content\<close> child
  with a first child node fails with an exception, and every group that loads has
  no content: \<^verbatim>\<open>getContent\<close> returns \<^verbatim>\<open>null\<close>. When the root is an Attributes
  element and the exception is not one of \<^verbatim>\<open>Attribute.getInstance\<close>, it is
  \<^verbatim>\<open>need an implementation\<close> or \<^verbatim>\<open>Too many content elements are defined.\<close>
\<close>

theorem Attributes_getInstance_rejects_content:
  "(has_content K (childNodes root) \<longrightarrow>
      (\<exists>e. Attributes_getInstance K attr (Some root) = Inl e)) \<and>
   (Attributes_getInstance K attr (Some root) = Inr a \<longrightarrow> getContent a = None) \<and>
   (Attributes_getInstance K attr (Some root) = Inl e \<and>
    nodeName root = ATTRIBUTES_ELEMENT K \<and>
    (\<forall>n \<in> set (childNodes root). attr n \<noteq> Inl e) \<longrightarrow>
      e = Error ''need an implementation'' \<or>
      e = Error ''Too many content elements are defined.'')"
proof (intro conjI impI)
  assume h: "has_content K (childNodes root)"
  show "\<exists>e. Attributes_getInstance K attr (Some root) = Inl e"
  proof (cases "Attributes_getInstance K attr (Some root)")
    case (Inl e)
    then show ?thesis by blast
  next
    case (Inr a)
    then obtain c' as' where
      l: "load_children K attr (childNodes root) None [] = Inr (c', as')" and "c' = None"
      by (auto simp: Attributes_getInstance_def split: if_splits sum.splits)
    with load_children_content[OF l] h show ?thesis by simp
  qed
next
  assume "Attributes_getInstance K attr (Some root) = Inr a"
  then show "getContent a = None"
    by (auto simp: Attributes_getInstance_def getContent_def split: if_splits sum.splits)
next
  assume h: "Attributes_getInstance K attr (Some root) = Inl e \<and>
    nodeName root = ATTRIBUTES_ELEMENT K \<and>
    (\<forall>n \<in> set (childNodes root). attr n \<noteq> Inl e)"
  show "e = Error ''need an implementation'' \<or>
      e = Error ''Too many content elements are defined.''"
  proof (cases "load_children K attr (childNodes root) None []")
    case (Inl e')
    from h have "nodeName root = ATTRIBUTES_ELEMENT K"
      and "Attributes_getInstance K attr (Some root) = Inl e" by simp_all
    with Inl have "e' = e" by (simp add: Attributes_getInstance_def)
    with Inl load_children_error[of K attr "childNodes root" None "[]" e] h
    show ?thesis by blast
  next
    case (Inr p)
    from h have "nodeName root = ATTRIBUTES_ELEMENT K"
      and "Attributes_getInstance K attr (Some root) = Inl e" by simp_all
    with Inr show ?thesis
      by (cases p) (auto simp: Attributes_getInstance_def split: if_splits)
  qed
qed

text \<open>
  Claim C6 as stated fails: a resource group with a \<^verbatim>\<open>Content\<close> element and one
  attribute does not load; the loader throws \<^verbatim>\<open>need an implementation\<close>.
\<close>

theorem Attributes_getInstance_content_counterexample:
  "Attributes_getInstance xacml3_names (\<lambda>node. Inr node) (Some resource_with_content) =
     Inl (Error ''need an implementation'')"
  by (simp add: Attributes_getInstance_def xacml3_names_def resource_with_content_def)

text \<open>
  The theorem at that group, and at the same group with an empty \<^verbatim>\<open>Content\<close>
  element, which loads with no content.
\<close>

theorem Attributes_getInstance_rejects_content_witness:
  "has_content xacml3_names (childNodes resource_with_content) \<and>
   (\<exists>e. Attributes_getInstance xacml3_names (\<lambda>node. Inr node) (Some resource_with_content) =
      Inl e) \<and>
   Attributes_getInstance xacml3_names (\<lambda>node. Inr node) (Some resource_with_empty_content) =
     Inr \<lparr> as_category = Some ''urn:oasis:names:tc:xacml:3.0:attribute-category:resource'',
           as_content = None,
           as_attributes = [Element ''Attribute'' [(''AttributeId'', ''task_id'')]
                              [Element ''AttributeValue'' [] [TextNode ''medical'']]],
           as_id = None \<rparr> \<and>
   getContent
     \<lparr> as_category = Some ''urn:oasis:names:tc:xacml:3.0:attribute-category:resource'',
       as_content = None,
       as_attributes = [Element ''Attribute'' [(''AttributeId'', ''task_id'')]
                          [Element ''AttributeValue'' [] [TextNode ''medical'']]],
       as_id = None \<rparr> = None \<and>
   nodeName resource_with_content = ATTRIBUTES_ELEMENT xacml3_names \<and>
   Attributes_getInstance xacml3_names (\<lambda>node. Inr node :: js_error + dom_node)
     (Some resource_with_content) = Inl (Error ''need an implementation'')"
  (is "?h \<and> ?fails \<and> ?loads = Inr ?a \<and> ?none \<and> ?root \<and> ?thrown = Inl ?e")
proof -
  have h: "?h"
    by (simp add: has_content_def xacml3_names_def resource_with_content_def)
  have loads: "?loads = Inr ?a"
    by (simp add: Attributes_getInstance_def xacml3_names_def resource_with_empty_content_def)
  have root: "?root"
    by (simp add: xacml3_names_def resource_with_content_def)
  have thrown: "?thrown = Inl ?e"
    by (simp add: Attributes_getInstance_def xacml3_names_def resource_with_content_def)
  have parsed: "\<forall>n \<in> set (childNodes resource_with_content).
      (Inr n :: js_error + dom_node) \<noteq> Inl ?e"
    by simp
  note t1 = Attributes_getInstance_rejects_content[of xacml3_names resource_with_content
      "\<lambda>node. Inr node" _ ?e]
  note t2 = Attributes_getInstance_rejects_content[of xacml3_names resource_with_empty_content
      "\<lambda>node. Inr node" ?a]
  from t1 h have fails: "?fails" by blast
  from t1 thrown root parsed
  have "?e = Error ''need an implementation'' \<or>
        ?e = Error ''Too many content elements are defined.''" by blast
  from t2 loads have none: "?none" by blast
  from h fails loads none root thrown show ?thesis by blast
qed

subsection \<open>The attribute designator and its cache\<close>

lemma lookup_initial:
  "fst (lookup this ctx initial_cache) =
     Assigned (getAttribute_ctx ctx (ad_type this) (ad_id this) (ad_issuer this) (ad_category this))"
  by (simp add: lookup_def cache_hit_def initial_cache_def Let_def)

text \<open>
  Claim C2. When the lookup of \<^verbatim>\<open>AttributeDesignator.evaluate\<close> (from the cache or
  from the context) yields a result that is not indeterminate and whose bag is
  empty, the designator returns that result if \<^verbatim>\<open>mustBePresent\<close> is false, and
  otherwise an indeterminate result whose status has the code missing-attribute
  and a detail naming the designator's id, dataType, category and issuer.
\<close>

theorem AttributeDesignator_empty_bag:
  assumes "fst (lookup this ctx c) = Assigned r"
    and "\<not> er_indeterminate r"
    and "er_attributeValues r = Some []"
  shows "fst (AttributeDesignator_evaluate this ctx c) =
           Inr (if ad_mustBePresent this then missing_attribute_result this else r) \<and>
         er_indeterminate (missing_attribute_result this) \<and>
         er_status (missing_attribute_result this) =
           Some \<lparr> st_code = [STATUS_MISSING_ATTRIBUTE],
                  st_message = Some ''Couldn't find AttributeDesignator attribute'',
                  st_detail = Some
                    [\<lparr> mad_id = ad_id this, mad_type = ad_type this,
                       mad_category = ad_category this, mad_issuer = ad_issuer this,
                       mad_attributeValues = None,
                       mad_xacmlVersion = XACML_VERSION_3_0 \<rparr>] \<rparr>"
  using assms
  by (cases "lookup this ctx c")
     (simp add: AttributeDesignator_evaluate_def missing_attribute_result_def)

text \<open>
  The theorem at the designator of \<^verbatim>\<open>task_expires\<close> over a request without that
  attribute, once with \<^verbatim>\<open>mustBePresent\<close> and once without.
\<close>

theorem AttributeDesignator_empty_bag_witness:
  "fst (lookup (task_expires True) (store_ctx 1 []) initial_cache) = Assigned (bag_result []) \<and>
   \<not> er_indeterminate (bag_result []) \<and>
   er_attributeValues (bag_result []) = Some [] \<and>
   fst (AttributeDesignator_evaluate (task_expires True) (store_ctx 1 []) initial_cache) =
     Inr (missing_attribute_result (task_expires True)) \<and>
   fst (AttributeDesignator_evaluate (task_expires False) (store_ctx 1 []) initial_cache) =
     Inr (bag_result [])"
  (is "?l \<and> ?n \<and> ?b \<and> ?must \<and> ?may")
proof -
  have l: "fst (lookup (task_expires m) (store_ctx 1 []) initial_cache) = Assigned (bag_result [])"
    for m
    by (simp add: lookup_initial store_ctx_def)
  have n: "?n" and b: "?b" by (simp_all add: bag_result_def)
  from AttributeDesignator_empty_bag[OF l[of True] n b] have must: "?must"
    by (simp add: task_expires_def)
  from AttributeDesignator_empty_bag[OF l[of False] n b] have may: "?may"
    by (simp add: task_expires_def)
  from l[of True] n b must may show ?thesis by blast
qed

lemma evaluate_cache: "snd (AttributeDesignator_evaluate d ctx c) = snd (lookup d ctx c)"
  by (cases "lookup d ctx c")
     (auto simp: AttributeDesignator_evaluate_def split: js_var.splits option.splits)

lemma evaluate_result:
  "fst (lookup d ctx c) = fst (lookup d ctx c0) \<Longrightarrow>
   fst (AttributeDesignator_evaluate d ctx c) = fst (AttributeDesignator_evaluate d ctx c0)"
  by (cases "lookup d ctx c"; cases "lookup d ctx c0")
     (auto simp: AttributeDesignator_evaluate_def split: js_var.splits option.splits)

lemma lookup_key:
  "cache_hit d ctx (snd (lookup d ctx c)) \<and> cacheResult (snd (lookup d ctx c)) = fst (lookup d ctx c)"
  by (simp add: lookup_def cache_hit_def Let_def)

lemma miss_is_fresh:
  assumes "\<not> cache_hit d ctx c"
  shows "AttributeDesignator_evaluate d ctx c = AttributeDesignator_evaluate d ctx initial_cache"
proof -
  have "\<not> cache_hit d ctx initial_cache"
    by (simp add: cache_hit_def initial_cache_def)
  with assms have "lookup d ctx c = lookup d ctx initial_cache"
    by (simp add: lookup_def)
  then show ?thesis by (simp add: AttributeDesignator_evaluate_def)
qed

text \<open>
  Claim C3, as amended. The cache is one entry in module-level variables, shared by
  all designators and all contexts. After any evaluation of a designator in a
  context, a second evaluation whose context has another attribute store object, or
  whose designator differs in type, id, issuer or category, behaves as on a fresh
  module: the entry is not returned to it. A second evaluation with the same store
  object and the same four designator fields is handed the first one's result,
  whatever its own context would answer.
\<close>

theorem cache_entry_keyed_by_designator_and_store:
  "(attributesSet ctx1 \<noteq> attributesSet ctx2 \<or> designator_key d1 \<noteq> designator_key d2 \<longrightarrow>
      AttributeDesignator_evaluate d2 ctx2 (snd (AttributeDesignator_evaluate d1 ctx1 c)) =
      AttributeDesignator_evaluate d2 ctx2 initial_cache) \<and>
   (attributesSet ctx1 = attributesSet ctx2 \<and> designator_key d1 = designator_key d2 \<longrightarrow>
      lookup d2 ctx2 (snd (AttributeDesignator_evaluate d1 ctx1 c)) =
      (fst (lookup d1 ctx1 c), snd (AttributeDesignator_evaluate d1 ctx1 c)))"
proof (intro conjI impI)
  let ?c1 = "snd (AttributeDesignator_evaluate d1 ctx1 c)"
  have key: "cache_hit d1 ctx1 ?c1" and res: "cacheResult ?c1 = fst (lookup d1 ctx1 c)"
    using lookup_key[of d1 ctx1 c] by (simp_all add: evaluate_cache)
  {
    assume "attributesSet ctx1 \<noteq> attributesSet ctx2 \<or> designator_key d1 \<noteq> designator_key d2"
    with key have "\<not> cache_hit d2 ctx2 ?c1"
      by (auto simp: cache_hit_def designator_key_def)
    then show "AttributeDesignator_evaluate d2 ctx2 ?c1 =
               AttributeDesignator_evaluate d2 ctx2 initial_cache"
      by (rule miss_is_fresh)
  next
    assume "attributesSet ctx1 = attributesSet ctx2 \<and> designator_key d1 = designator_key d2"
    with key have "cache_hit d2 ctx2 ?c1"
      by (simp add: cache_hit_def designator_key_def)
    with res show "lookup d2 ctx2 ?c1 = (fst (lookup d1 ctx1 c), ?c1)"
      by (simp add: lookup_def)
  }
qed

text \<open>
  Claim C3 as stated fails: the cache is not per context. Two contexts over one
  attribute store object, the second created five seconds later so that its finder
  answers a later current dateTime: the second evaluation is handed the first
  context's value, not the one its own context gives on a fresh module.
\<close>

theorem cache_shared_between_contexts:
  "fst (AttributeDesignator_evaluate current_dateTime
          (store_ctx 1 [JsString ''2025-01-01T00:00:05Z''])
          (snd (AttributeDesignator_evaluate current_dateTime
                  (store_ctx 1 [JsString ''2025-01-01T00:00:00Z'']) initial_cache))) =
     Inr (bag_result [JsString ''2025-01-01T00:00:00Z'']) \<and>
   fst (AttributeDesignator_evaluate current_dateTime
          (store_ctx 1 [JsString ''2025-01-01T00:00:05Z'']) initial_cache) =
     Inr (bag_result [JsString ''2025-01-01T00:00:05Z''])"
  by (simp add: AttributeDesignator_evaluate_def lookup_def cache_hit_def initial_cache_def
      store_ctx_def bag_result_def current_dateTime_def Let_def)

text \<open>
  The theorem at two requests with different stores (the entry is not returned),
  and at two contexts over one store (it is).
\<close>

theorem cache_entry_keyed_by_designator_and_store_witness:
  "attributesSet (store_ctx 1 [JsString ''medical'']) \<noteq> attributesSet (store_ctx 2 []) \<and>
   AttributeDesignator_evaluate (task_expires False) (store_ctx 2 [])
     (snd (AttributeDesignator_evaluate (task_expires False) (store_ctx 1 [JsString ''medical''])
             initial_cache)) =
   AttributeDesignator_evaluate (task_expires False) (store_ctx 2 []) initial_cache \<and>
   fst (AttributeDesignator_evaluate (task_expires False) (store_ctx 2 []) initial_cache) =
     Inr (bag_result []) \<and>
   lookup (task_expires True) (store_ctx 1 [])
     (snd (AttributeDesignator_evaluate (task_expires False) (store_ctx 1 [JsString ''medical''])
             initial_cache)) =
   (Assigned (bag_result [JsString ''medical'']),
    snd (AttributeDesignator_evaluate (task_expires False) (store_ctx 1 [JsString ''medical''])
           initial_cache))"
  (is "?ne \<and> ?miss \<and> ?fresh \<and> ?hit")
proof -
  have ne: "?ne" by (simp add: store_ctx_def)
  have same: "attributesSet (store_ctx 1 [JsString ''medical'']) = attributesSet (store_ctx 1 [])
      \<and> designator_key (task_expires False) = designator_key (task_expires True)"
    by (simp add: store_ctx_def designator_key_def task_expires_def)
  have first: "fst (lookup (task_expires False) (store_ctx 1 [JsString ''medical'']) initial_cache)
      = Assigned (bag_result [JsString ''medical''])"
    by (simp add: lookup_initial store_ctx_def)
  have fresh: "?fresh"
    by (simp add: AttributeDesignator_evaluate_def lookup_def cache_hit_def initial_cache_def
        store_ctx_def bag_result_def task_expires_def Let_def)
  note t1 = cache_entry_keyed_by_designator_and_store[of "store_ctx 1 [JsString ''medical'']"
      "store_ctx 2 []" "task_expires False" "task_expires False" initial_cache]
  note t2 = cache_entry_keyed_by_designator_and_store[of "store_ctx 1 [JsString ''medical'']"
      "store_ctx 1 []" "task_expires False" "task_expires True" initial_cache]
  from t1 ne have miss: "?miss" by blast
  from t2 same first have hit: "?hit" by simp
  from ne miss fresh hit show ?thesis by blast
qed

lemma cache_sound_for_initial: "cache_sound_for ctx initial_cache"
  by (simp add: cache_sound_for_def initial_cache_def)

lemma lookup_own:
  assumes "cache_sound_for ctx c"
  shows "fst (lookup this ctx c) =
           Assigned (getAttribute_ctx ctx (ad_type this) (ad_id this) (ad_issuer this)
                      (ad_category this)) \<and>
         cache_sound_for ctx (snd (lookup this ctx c))"
proof (cases "cache_hit this ctx c")
  case True
  with assms have "cacheResult c =
      Assigned (getAttribute_ctx ctx (ad_type this) (ad_id this) (ad_issuer this)
                  (ad_category this))"
    by (simp add: cache_hit_def cache_sound_for_def)
  with True assms show ?thesis by (simp add: lookup_def)
next
  case False
  then show ?thesis
    by (simp add: lookup_def Let_def cache_sound_for_def)
qed

lemma lookup_foreign:
  assumes "cache_sound_for ctx c" and "attributesSet other \<noteq> attributesSet ctx"
  shows "cache_sound_for ctx (snd (lookup this other c))"
proof (cases "cache_hit this other c")
  case True
  with assms(1) show ?thesis by (simp add: lookup_def)
next
  case False
  with assms(2) show ?thesis
    by (simp add: lookup_def Let_def cache_sound_for_def)
qed

lemma evaluate_own:
  assumes "cache_sound_for ctx c"
  shows "fst (AttributeDesignator_evaluate this ctx c) =
           fst (AttributeDesignator_evaluate this ctx initial_cache) \<and>
         cache_sound_for ctx (snd (AttributeDesignator_evaluate this ctx c))"
proof -
  note own = lookup_own[OF assms, of this]
  note fresh = lookup_own[OF cache_sound_for_initial, of this ctx]
  have "fst (lookup this ctx c) = fst (lookup this ctx initial_cache)"
    using own[THEN conjunct1] fresh[THEN conjunct1] by (rule trans[OF _ sym])
  then have "fst (AttributeDesignator_evaluate this ctx c) =
           fst (AttributeDesignator_evaluate this ctx initial_cache)"
    by (rule evaluate_result)
  moreover have "cache_sound_for ctx (snd (AttributeDesignator_evaluate this ctx c))"
    using own[THEN conjunct2] by (simp only: evaluate_cache)
  ultimately show ?thesis by (rule conjI)
qed

lemma evaluate_harmless:
  assumes "cache_sound_for ctx c" and "harmless_for ctx other"
  shows "cache_sound_for ctx (snd (AttributeDesignator_evaluate this other c))"
proof (cases "other = ctx")
  case True
  with evaluate_own[OF assms(1), of this] show ?thesis by simp
next
  case False
  with assms(2) have "attributesSet other \<noteq> attributesSet ctx"
    by (simp add: harmless_for_def)
  from lookup_foreign[OF assms(1) this] show ?thesis by (simp add: evaluate_cache)
qed

lemma evaluate_result_same:
  "fst (lookup d ctx1 c1) = fst (lookup d ctx2 c2) \<Longrightarrow>
   fst (AttributeDesignator_evaluate d ctx1 c1) = fst (AttributeDesignator_evaluate d ctx2 c2)"
  by (cases "lookup d ctx1 c1"; cases "lookup d ctx2 c2")
     (auto simp: AttributeDesignator_evaluate_def split: js_var.splits option.splits)

lemma evaluate_same:
  assumes "getAttribute_ctx ctx1 = getAttribute_ctx ctx2"
    and "cache_sound_for ctx1 c1" and "cache_sound_for ctx2 c2"
  shows "fst (AttributeDesignator_evaluate this ctx1 c1) =
           fst (AttributeDesignator_evaluate this ctx2 c2) \<and>
         cache_sound_for ctx1 (snd (AttributeDesignator_evaluate this ctx1 c1)) \<and>
         cache_sound_for ctx2 (snd (AttributeDesignator_evaluate this ctx2 c2))"
proof -
  note l1 = lookup_own[OF assms(2), of this]
  note l2 = lookup_own[OF assms(3), of this]
  have "fst (lookup this ctx1 c1) = fst (lookup this ctx2 c2)"
    using l1[THEN conjunct1] l2[THEN conjunct1] assms(1) by simp
  then have "fst (AttributeDesignator_evaluate this ctx1 c1) =
           fst (AttributeDesignator_evaluate this ctx2 c2)"
    by (rule evaluate_result_same)
  moreover have "cache_sound_for ctx1 (snd (AttributeDesignator_evaluate this ctx1 c1))"
    using l1[THEN conjunct2] by (simp only: evaluate_cache)
  moreover have "cache_sound_for ctx2 (snd (AttributeDesignator_evaluate this ctx2 c2))"
    using l2[THEN conjunct2] by (simp only: evaluate_cache)
  ultimately show ?thesis by blast
qed

lemma run_plan_same:
  assumes "getAttribute_ctx ctx1 = getAttribute_ctx ctx2"
  shows "cache_sound_for ctx1 c1 \<Longrightarrow> cache_sound_for ctx2 c2 \<Longrightarrow>
         fst (run_plan p ctx1 c1) = fst (run_plan p ctx2 c2)"
proof (induction p arbitrary: c1 c2)
  case (Decide a)
  then show ?case by simp
next
  case (Consult d k)
  obtain o1 c1' where e1: "AttributeDesignator_evaluate d ctx1 c1 = (o1, c1')"
    by (cases "AttributeDesignator_evaluate d ctx1 c1")
  obtain o2 c2' where e2: "AttributeDesignator_evaluate d ctx2 c2 = (o2, c2')"
    by (cases "AttributeDesignator_evaluate d ctx2 c2")
  from evaluate_same[OF assms Consult.prems, of d] e1 e2
  have same: "o2 = o1" and s1: "cache_sound_for ctx1 c1'" and s2: "cache_sound_for ctx2 c2'"
    by simp_all
  show ?case
  proof (cases o1)
    case (Inl e)
    with same e1 e2 show ?thesis by simp
  next
    case (Inr r)
    have "k r \<in> range k" by simp
    from Consult.IH[OF this s1 s2] Inr same e1 e2 show ?thesis by simp
  qed
qed

lemma run_plan_harmless:
  assumes "harmless_for ctx other"
  shows "cache_sound_for ctx c \<Longrightarrow> cache_sound_for ctx (snd (run_plan p other c))"
proof (induction p arbitrary: c)
  case (Decide a)
  then show ?case by simp
next
  case (Consult d k)
  obtain o1 c1 where e1: "AttributeDesignator_evaluate d other c = (o1, c1)"
    by (cases "AttributeDesignator_evaluate d other c")
  from evaluate_harmless[OF Consult.prems assms, of d] e1
  have s1: "cache_sound_for ctx c1" by simp
  show ?case
  proof (cases o1)
    case (Inl e)
    with e1 s1 show ?thesis by simp
  next
    case (Inr r)
    have "k r \<in> range k" by simp
    from Consult.IH[OF this s1] Inr e1 show ?thesis by simp
  qed
qed

lemma run_all_harmless:
  assumes "\<forall>(other, q) \<in> set earlier. harmless_for ctx other" and "cache_sound_for ctx c"
  shows "cache_sound_for ctx (run_all earlier c)"
  using assms
proof (induction earlier arbitrary: c)
  case Nil
  then show ?case by simp
next
  case (Cons x earlier)
  obtain other q where x: "x = (other, q)" by (cases x)
  with Cons.prems have a: "harmless_for ctx other" by simp
  from run_plan_harmless[OF a Cons.prems(2), of q]
  have "cache_sound_for ctx (snd (run_plan q other c))" .
  with Cons x show ?case by simp
qed

text \<open>
  Claim C8. Let an evaluation be any strategy that consults designators and decides
  from their results (the same strategy for the same policies). Take two contexts
  whose finders answer alike (the same request, with the current dateTime fixed), and
  for each any history of earlier evaluations on the module, each of them over
  another attribute store (another request) or in that very context. Then the two
  evaluations have the same outcome, which is the outcome on a fresh module: the state
  the cache is left in never changes the result.
\<close>

theorem evaluation_deterministic_across_cache_histories:
  assumes "\<forall>(other, q) \<in> set history1. harmless_for ctx1 other"
    and "\<forall>(other, q) \<in> set history2. harmless_for ctx2 other"
    and "getAttribute_ctx ctx1 = getAttribute_ctx ctx2"
  shows "fst (run_plan p ctx1 (run_all history1 initial_cache)) =
           fst (run_plan p ctx2 (run_all history2 initial_cache)) \<and>
         fst (run_plan p ctx1 (run_all history1 initial_cache)) =
           fst (run_plan p ctx1 initial_cache)"
proof -
  have s1: "cache_sound_for ctx1 (run_all history1 initial_cache)"
    by (rule run_all_harmless[OF assms(1) cache_sound_for_initial])
  have s2: "cache_sound_for ctx2 (run_all history2 initial_cache)"
    by (rule run_all_harmless[OF assms(2) cache_sound_for_initial])
  have "fst (run_plan p ctx1 (run_all history1 initial_cache)) =
           fst (run_plan p ctx2 (run_all history2 initial_cache))"
    by (rule run_plan_same[OF assms(3) s1 s2])
  moreover have "fst (run_plan p ctx1 (run_all history1 initial_cache)) =
           fst (run_plan p ctx1 initial_cache)"
    by (rule run_plan_same[OF refl s1 cache_sound_for_initial])
  ultimately show ?thesis by (rule conjI)
qed

text \<open>
  The theorem at a request that carries \<^verbatim>\<open>task_expires\<close>: evaluated after a request
  that does not, and evaluated again from a second parse (another store object with
  the same attributes) after both.
\<close>

theorem evaluation_deterministic_across_cache_histories_witness:
  "harmless_for (store_ctx 1 [JsString ''2026-12-31T23:59:59Z'']) (store_ctx 2 []) \<and>
   harmless_for (store_ctx 3 [JsString ''2026-12-31T23:59:59Z'']) (store_ctx 2 []) \<and>
   harmless_for (store_ctx 3 [JsString ''2026-12-31T23:59:59Z''])
     (store_ctx 1 [JsString ''2026-12-31T23:59:59Z'']) \<and>
   getAttribute_ctx (store_ctx 1 [JsString ''2026-12-31T23:59:59Z'']) =
     getAttribute_ctx (store_ctx 3 [JsString ''2026-12-31T23:59:59Z'']) \<and>
   fst (run_plan (present_plan (task_expires True))
          (store_ctx 1 [JsString ''2026-12-31T23:59:59Z''])
          (run_all [(store_ctx 2 [], present_plan (task_expires True))] initial_cache)) =
     Inr True \<and>
   fst (run_plan (present_plan (task_expires True))
          (store_ctx 3 [JsString ''2026-12-31T23:59:59Z''])
          (run_all [(store_ctx 2 [], present_plan (task_expires True)),
                    (store_ctx 1 [JsString ''2026-12-31T23:59:59Z''],
                     present_plan (task_expires True)),
                    (store_ctx 2 [], present_plan (task_expires True))] initial_cache)) =
     Inr True"
  (is "?h12 \<and> ?h32 \<and> ?h31 \<and> ?same \<and> ?first = Inr True \<and> ?second = Inr True")
proof -
  have h12: "?h12" and h32: "?h32" and h31: "?h31"
    by (simp_all add: harmless_for_def store_ctx_def)
  have same: "?same" by (simp add: store_ctx_def)
  from h12 have hist1: "\<forall>(other, q) \<in> set [(store_ctx 2 [], present_plan (task_expires True))].
      harmless_for (store_ctx 1 [JsString ''2026-12-31T23:59:59Z'']) other"
    by simp
  from h32 h31 have hist2: "\<forall>(other, q) \<in> set
      [(store_ctx 2 [], present_plan (task_expires True)),
       (store_ctx 1 [JsString ''2026-12-31T23:59:59Z''], present_plan (task_expires True)),
       (store_ctx 2 [], present_plan (task_expires True))].
      harmless_for (store_ctx 3 [JsString ''2026-12-31T23:59:59Z'']) other"
    by simp
  have fresh: "fst (run_plan (present_plan (task_expires True))
          (store_ctx 1 [JsString ''2026-12-31T23:59:59Z'']) initial_cache) = Inr True"
    by (simp add: present_plan_def AttributeDesignator_evaluate_def lookup_def cache_hit_def
        initial_cache_def store_ctx_def bag_result_def Let_def)
  note t = evaluation_deterministic_across_cache_histories[OF hist1 hist2 same,
      of "present_plan (task_expires True)"]
  have first: "?first = Inr True"
    by (rule trans[OF t[THEN conjunct2] fresh])
  have second: "?second = Inr True"
    by (rule trans[OF t[THEN conjunct1, symmetric] first])
  from h12 h32 h31 same first second show ?thesis by blast
qed

subsection \<open>The not function\<close>

text \<open>
  Claim C9. Applied to an argument expression, or to a result directly, \<^verbatim>\<open>not\<close>
  returns an indeterminate result unchanged, and for a result that is not
  indeterminate and has the boolean value \<open>v\<close> it returns the result that wraps
  \<open>\<not> v\<close>.
\<close>

theorem NotFunction_propagates_or_negates:
  "(e ctx = Inr r \<and> er_indeterminate r \<longrightarrow>
      NotFunction_evaluate mk (InputsArray (e # es)) ctx = Inr r) \<and>
   (e ctx = Inr r \<and> \<not> er_indeterminate r \<and> er_value r = JsBool v \<longrightarrow>
      NotFunction_evaluate mk (InputsArray (e # es)) ctx = Inr (mk (\<not> v))) \<and>
   (er_indeterminate r \<longrightarrow> NotFunction_evaluate mk (InputsResult r) ctx = Inr r) \<and>
   (\<not> er_indeterminate r \<and> er_value r = JsBool v \<longrightarrow>
      NotFunction_evaluate mk (InputsResult r) ctx = Inr (mk (\<not> v))) \<and>
   NotFunction_evaluate mk (InputsOther (JsBool v)) ctx = Inr (mk (\<not> v))"
  by (simp add: NotFunction_evaluate_def evaluateApply_def)

text \<open>
  The theorem at an indeterminate argument (a missing attribute) and at the two
  booleans.
\<close>

theorem NotFunction_propagates_or_negates_witness:
  "er_indeterminate (missing_attribute_result (task_expires True)) \<and>
   NotFunction_evaluate boolean_result
     (InputsArray [\<lambda>c. Inr (missing_attribute_result (task_expires True))]) (store_ctx 1 []) =
     Inr (missing_attribute_result (task_expires True)) \<and>
   \<not> er_indeterminate (boolean_result True) \<and>
   er_value (boolean_result True) = JsBool True \<and>
   NotFunction_evaluate boolean_result
     (InputsArray [\<lambda>c. Inr (boolean_result True)]) (store_ctx 1 []) =
     Inr (boolean_result False) \<and>
   NotFunction_evaluate boolean_result (InputsResult (boolean_result False)) (store_ctx 1 []) =
     Inr (boolean_result True)"
  (is "?i \<and> ?A \<and> ?n \<and> ?v \<and> ?B \<and> ?C")
proof -
  have i: "?i" by (simp add: missing_attribute_result_def)
  have n: "?n" and v: "?v" by (simp_all add: boolean_result_def)
  have n': "\<not> er_indeterminate (boolean_result False)"
    and v': "er_value (boolean_result False) = JsBool False"
    by (simp_all add: boolean_result_def)
  note t1 = NotFunction_propagates_or_negates[of
      "\<lambda>c. Inr (missing_attribute_result (task_expires True))" "store_ctx 1 []"
      "missing_attribute_result (task_expires True)" boolean_result "[]"]
  note t2 = NotFunction_propagates_or_negates[of
      "\<lambda>c. Inr (boolean_result True)" "store_ctx 1 []" "boolean_result True"
      boolean_result "[]" True]
  note t3 = NotFunction_propagates_or_negates[of
      "\<lambda>c. Inr (boolean_result False)" "store_ctx 1 []" "boolean_result False"
      boolean_result "[]" False]
  from t1 i have a: "?A" by simp
  from t2 n v have b: "?B" by simp
  from t3 n' v' have c: "?C" by simp
  from i a n v b c show ?thesis by blast
qed

subsection \<open>The PDP front\<close>

lemma parseRes_in_external: "parseRes R c = None \<or> parseRes R c \<in> external_decisions"
  unfolding parseRes_def external_decisions_def by simp

lemma parseRes_of_code:
  assumes "c \<in> set (decision_codes R)"
  shows "parseRes R c \<in> external_decisions"
proof -
  have "parseRes R c \<noteq> None"
    using assms unfolding decision_codes_def parseRes_def by auto
  with parseRes_in_external[of R c] show ?thesis by blast
qed

lemma parseRes_table:
  assumes "distinct (decision_codes R)"
  shows "parseRes R (DECISION_PERMIT R) = Some ''Permit'' \<and>
         parseRes R (DECISION_DENY R) = Some ''Deny'' \<and>
         parseRes R (DECISION_NOT_APPLICABLE R) = Some ''NotApplicable'' \<and>
         parseRes R (DECISION_INDETERMINATE R) = Some ''Indeterminate'' \<and>
         parseRes R (DECISION_INDETERMINATE_DENY R) = Some ''Indeterminate'' \<and>
         parseRes R (DECISION_INDETERMINATE_PERMIT R) = Some ''Indeterminate'' \<and>
         parseRes R (DECISION_INDETERMINATE_DENY_OR_PERMIT R) = Some ''Indeterminate''"
proof -
  from assms have ne:
    "DECISION_DENY R \<noteq> DECISION_PERMIT R"
    "DECISION_NOT_APPLICABLE R \<noteq> DECISION_PERMIT R"
    "DECISION_NOT_APPLICABLE R \<noteq> DECISION_DENY R"
    "DECISION_NOT_APPLICABLE R \<noteq> DECISION_INDETERMINATE R"
    "DECISION_INDETERMINATE R \<noteq> DECISION_PERMIT R"
    "DECISION_INDETERMINATE R \<noteq> DECISION_DENY R"
    "DECISION_INDETERMINATE_DENY R \<noteq> DECISION_PERMIT R"
    "DECISION_INDETERMINATE_DENY R \<noteq> DECISION_DENY R"
    "DECISION_INDETERMINATE_DENY R \<noteq> DECISION_NOT_APPLICABLE R"
    "DECISION_INDETERMINATE_PERMIT R \<noteq> DECISION_PERMIT R"
    "DECISION_INDETERMINATE_PERMIT R \<noteq> DECISION_DENY R"
    "DECISION_INDETERMINATE_PERMIT R \<noteq> DECISION_NOT_APPLICABLE R"
    "DECISION_INDETERMINATE_DENY_OR_PERMIT R \<noteq> DECISION_PERMIT R"
    "DECISION_INDETERMINATE_DENY_OR_PERMIT R \<noteq> DECISION_DENY R"
    "DECISION_INDETERMINATE_DENY_OR_PERMIT R \<noteq> DECISION_NOT_APPLICABLE R"
    unfolding decision_codes_def by auto
  then show ?thesis unfolding parseRes_def by simp
qed

lemma evaluateCallBack_decision:
  assumes "evaluateCallBack env request = Inr r"
  shows "decision r = Some ''Indeterminate'' \<or>
         (\<exists>rq responseCtx others.
            getRequestCtxWithRequest env request = Inr rq \<and>
            pdp_evaluate_getResults env rq = Inr (responseCtx # others) \<and>
            decision r = parseRes (decisions env) (rc_decision responseCtx))"
proof (cases "getRequestCtxWithRequest env request")
  case (Inl err)
  with assms show ?thesis by (auto simp: evaluateCallBack_def)
next
  case (Inr rq)
  show ?thesis
  proof (cases "pdp_evaluate_getResults env rq")
    case (Inl e)
    with Inr assms show ?thesis by (simp add: evaluateCallBack_def)
  next
    case results: (Inr rs)
    show ?thesis
    proof (cases rs)
      case Nil
      with Inr results assms show ?thesis by (simp add: evaluateCallBack_def)
    next
      case (Cons responseCtx others)
      show ?thesis
      proof (cases "getFullObligationsFromPolicy env (rc_obligations responseCtx)")
        case (Inl e)
        with Inr results Cons assms show ?thesis by (simp add: evaluateCallBack_def)
      next
        case full: (Inr fullObligations)
        with Inr results Cons assms
        have "decision r = parseRes (decisions env) (rc_decision responseCtx)"
          by (auto simp: evaluateCallBack_def Let_def)
        with Inr results Cons show ?thesis by blast
      qed
    qed
  qed
qed

text \<open>
  Claim C7. With pairwise distinct decision codes, \<^verbatim>\<open>parseRes\<close> maps Permit, Deny
  and NotApplicable to their names and the plain Indeterminate and each of its
  three flavours to \<^verbatim>\<open>Indeterminate\<close>; every code goes to one of the four strings,
  and so does the decision of every response \<^verbatim>\<open>evaluateCallBack\<close> returns when the
  PDP's results carry decision codes.
\<close>

theorem parseRes_external_decision_strings:
  assumes "distinct (decision_codes R)"
  shows "parseRes R (DECISION_PERMIT R) = Some ''Permit'' \<and>
         parseRes R (DECISION_DENY R) = Some ''Deny'' \<and>
         parseRes R (DECISION_NOT_APPLICABLE R) = Some ''NotApplicable'' \<and>
         parseRes R (DECISION_INDETERMINATE R) = Some ''Indeterminate'' \<and>
         parseRes R (DECISION_INDETERMINATE_DENY R) = Some ''Indeterminate'' \<and>
         parseRes R (DECISION_INDETERMINATE_PERMIT R) = Some ''Indeterminate'' \<and>
         parseRes R (DECISION_INDETERMINATE_DENY_OR_PERMIT R) = Some ''Indeterminate'' \<and>
         (\<forall>c \<in> set (decision_codes R). parseRes R c \<in> external_decisions) \<and>
         (decisions env = R \<and>
          (\<forall>rq rs. pdp_evaluate_getResults env rq = Inr rs \<longrightarrow>
             (\<forall>x \<in> set rs. rc_decision x \<in> set (decision_codes R))) \<and>
          evaluateCallBack env request = Inr r \<longrightarrow> decision r \<in> external_decisions)"
proof (intro conjI ballI impI)
  fix c
  assume "c \<in> set (decision_codes R)"
  then show "parseRes R c \<in> external_decisions" by (rule parseRes_of_code)
next
  assume h: "decisions env = R \<and>
          (\<forall>rq rs. pdp_evaluate_getResults env rq = Inr rs \<longrightarrow>
             (\<forall>x \<in> set rs. rc_decision x \<in> set (decision_codes R))) \<and>
          evaluateCallBack env request = Inr r"
  then have cb: "evaluateCallBack env request = Inr r" by simp
  from evaluateCallBack_decision[OF cb] show "decision r \<in> external_decisions"
  proof
    assume "decision r = Some ''Indeterminate''"
    then show ?thesis by (simp add: external_decisions_def)
  next
    assume "\<exists>rq responseCtx others.
          getRequestCtxWithRequest env request = Inr rq \<and>
          pdp_evaluate_getResults env rq = Inr (responseCtx # others) \<and>
          decision r = parseRes (decisions env) (rc_decision responseCtx)"
    then obtain rq responseCtx others where
      rs: "pdp_evaluate_getResults env rq = Inr (responseCtx # others)" and
      d: "decision r = parseRes (decisions env) (rc_decision responseCtx)" by blast
    from h rs have "rc_decision responseCtx \<in> set (decision_codes R)" by fastforce
    with d h parseRes_of_code show ?thesis by simp
  qed
qed (use parseRes_table[OF assms] in simp_all)

text \<open>
  The theorem at the codes 0 to 6, and at a PDP whose result carries the code 5.
\<close>

theorem parseRes_external_decision_strings_witness:
  "distinct (decision_codes codes_0_to_6) \<and>
   parseRes codes_0_to_6 4 = Some ''Indeterminate'' \<and>
   parseRes codes_0_to_6 5 = Some ''Indeterminate'' \<and>
   parseRes codes_0_to_6 6 = Some ''Indeterminate'' \<and>
   6 \<in> set (decision_codes codes_0_to_6) \<and>
   parseRes codes_0_to_6 6 \<in> external_decisions \<and>
   evaluateCallBack
     (sample_env (\<lambda>xml. Inr ())
        (\<lambda>rq. Inr [\<lparr> rc_obligations = None, rc_decision = 5, rc_attributes = (),
                       rc_status = None \<rparr>]))
     ''<Request/>'' =
     Inr \<lparr> obligations = ''[]'', attributes = ''[]'', decision = Some ''Indeterminate'',
           reason = None, message = None \<rparr> \<and>
   Some ''Indeterminate'' \<in> external_decisions"
  (is "?d \<and> ?f4 \<and> ?f5 \<and> ?f6 \<and> ?mem \<and> ?ext \<and> evaluateCallBack ?env ?rq = Inr ?r \<and> ?last")
proof -
  have d: "?d"
    by (simp add: decision_codes_def codes_0_to_6_def)
  have m: "?mem"
    by (simp add: decision_codes_def codes_0_to_6_def)
  have sel: "DECISION_INDETERMINATE_DENY codes_0_to_6 = 4"
    "DECISION_INDETERMINATE_PERMIT codes_0_to_6 = 5"
    "DECISION_INDETERMINATE_DENY_OR_PERMIT codes_0_to_6 = 6"
    by (simp_all add: codes_0_to_6_def)
  have env: "decisions ?env = codes_0_to_6"
    by (simp add: sample_env_def)
  have results: "\<forall>rq rs. pdp_evaluate_getResults ?env rq = Inr rs \<longrightarrow>
      (\<forall>x \<in> set rs. rc_decision x \<in> set (decision_codes codes_0_to_6))"
    by (auto simp: sample_env_def decision_codes_def codes_0_to_6_def)
  have answered: "evaluateCallBack ?env ?rq = Inr ?r"
    by (simp add: evaluateCallBack_def sample_env_def getFullObligationsFromPolicy_def
        parseRes_def codes_0_to_6_def)
  note t = parseRes_external_decision_strings[OF d, of ?env ?rq ?r]
  from t[THEN conjunct2, THEN conjunct2, THEN conjunct2, THEN conjunct2, THEN conjunct1] sel
  have f4: "?f4" by simp
  from t[THEN conjunct2, THEN conjunct2, THEN conjunct2, THEN conjunct2, THEN conjunct2,
      THEN conjunct1] sel
  have f5: "?f5" by simp
  from t[THEN conjunct2, THEN conjunct2, THEN conjunct2, THEN conjunct2, THEN conjunct2,
      THEN conjunct2, THEN conjunct1] sel
  have f6: "?f6" by simp
  from t[THEN conjunct2, THEN conjunct2, THEN conjunct2, THEN conjunct2, THEN conjunct2,
      THEN conjunct2, THEN conjunct2, THEN conjunct1] m
  have e: "?ext" by blast
  from t[THEN conjunct2, THEN conjunct2, THEN conjunct2, THEN conjunct2, THEN conjunct2,
      THEN conjunct2, THEN conjunct2, THEN conjunct2] env results answered
  have "decision ?r \<in> external_decisions" by blast
  then have last: "?last" by simp
  from d f4 f5 f6 m e answered last show ?thesis by blast
qed

lemma evaluateCallBack_throws:
  assumes "evaluateCallBack env request = Inl e"
  shows "\<exists>rq. getRequestCtxWithRequest env request = Inr rq \<and>
           (pdp_evaluate_getResults env rq = Inl e \<or>
            (pdp_evaluate_getResults env rq = Inr [] \<and>
             e = TypeError ''Cannot read properties of undefined (reading obligations)'') \<or>
            (\<exists>responseCtx others.
               pdp_evaluate_getResults env rq = Inr (responseCtx # others) \<and>
               getFullObligationsFromPolicy env (rc_obligations responseCtx) = Inl e))"
proof (cases "getRequestCtxWithRequest env request")
  case (Inl err)
  with assms show ?thesis by (simp add: evaluateCallBack_def)
next
  case (Inr rq)
  show ?thesis
  proof (cases "pdp_evaluate_getResults env rq")
    case (Inl e')
    with Inr assms show ?thesis by (simp add: evaluateCallBack_def)
  next
    case results: (Inr rs)
    show ?thesis
    proof (cases rs)
      case Nil
      with Inr results assms show ?thesis by (auto simp: evaluateCallBack_def)
    next
      case (Cons responseCtx others)
      show ?thesis
      proof (cases "getFullObligationsFromPolicy env (rc_obligations responseCtx)")
        case (Inl e')
        with Inr results Cons assms show ?thesis by (simp add: evaluateCallBack_def)
      next
        case full: (Inr fullObligations)
        with Inr results Cons assms show ?thesis
          by (simp add: evaluateCallBack_def Let_def)
      qed
    qed
  qed
qed

text \<open>
  Claim C1, as amended. \<^verbatim>\<open>evaluates\<close> never throws: it returns the response of
  \<^verbatim>\<open>evaluateCallBack\<close>, or \<^verbatim>\<open>undefined\<close> when \<^verbatim>\<open>evaluateCallBack\<close> throws. When building
  the request context throws, \<^verbatim>\<open>evaluateCallBack\<close> returns the response with decision
  \<^verbatim>\<open>Indeterminate\<close> that carries the error's message (and no status code). It throws
  itself only when a later stage does: the PDP's evaluation, an empty list of
  results, or the scan of the policy files for obligations.
\<close>

theorem evaluates_never_throws_parse_errors_indeterminate:
  "(\<exists>res. evaluates env request = Inr res) \<and>
   (getRequestCtxWithRequest env request = Inl err \<longrightarrow>
      evaluateCallBack env request = Inr (indeterminate_response err) \<and>
      evaluates env request = Inr (Some (indeterminate_response err))) \<and>
   (evaluateCallBack env request = Inr r \<longrightarrow> evaluates env request = Inr (Some r)) \<and>
   (evaluateCallBack env request = Inl e \<longrightarrow>
      evaluates env request = Inr None \<and>
      (\<exists>rq. getRequestCtxWithRequest env request = Inr rq \<and>
         (pdp_evaluate_getResults env rq = Inl e \<or>
          (pdp_evaluate_getResults env rq = Inr [] \<and>
           e = TypeError ''Cannot read properties of undefined (reading obligations)'') \<or>
          (\<exists>responseCtx others.
             pdp_evaluate_getResults env rq = Inr (responseCtx # others) \<and>
             getFullObligationsFromPolicy env (rc_obligations responseCtx) = Inl e))))"
proof (intro conjI impI)
  show "\<exists>res. evaluates env request = Inr res"
    by (cases "evaluateCallBack env request") (simp_all add: evaluates_def)
next
  assume "getRequestCtxWithRequest env request = Inl err"
  then show "evaluateCallBack env request = Inr (indeterminate_response err)"
    by (simp add: evaluateCallBack_def indeterminate_response_def)
  then show "evaluates env request = Inr (Some (indeterminate_response err))"
    by (simp add: evaluates_def)
next
  assume "evaluateCallBack env request = Inr r"
  then show "evaluates env request = Inr (Some r)" by (simp add: evaluates_def)
next
  assume t: "evaluateCallBack env request = Inl e"
  then show "evaluates env request = Inr None" by (simp add: evaluates_def)
  from t show "\<exists>rq. getRequestCtxWithRequest env request = Inr rq \<and>
         (pdp_evaluate_getResults env rq = Inl e \<or>
          (pdp_evaluate_getResults env rq = Inr [] \<and>
           e = TypeError ''Cannot read properties of undefined (reading obligations)'') \<or>
          (\<exists>responseCtx others.
             pdp_evaluate_getResults env rq = Inr (responseCtx # others) \<and>
             getFullObligationsFromPolicy env (rc_obligations responseCtx) = Inl e))"
    by (rule evaluateCallBack_throws)
qed

text \<open>
  Claim C1 as stated fails: the call of the PDP is outside the \<^verbatim>\<open>try\<close> of
  \<^verbatim>\<open>evaluateCallBack\<close>. With a request that parses and a PDP whose evaluation throws
  (as \<^verbatim>\<open>DateTimeAttribute.equals\<close> does whenever it is reached),
  \<^verbatim>\<open>evaluateCallBack\<close> propagates the exception and \<^verbatim>\<open>evaluates\<close> returns \<^verbatim>\<open>undefined\<close>:
  no response, and no Indeterminate decision.
\<close>

theorem evaluateCallBack_propagates_evaluation_error:
  "evaluateCallBack (sample_env (\<lambda>xml. Inr ()) (\<lambda>rq. Inl (Error []))) ''<Request/>'' =
     Inl (Error []) \<and>
   evaluates (sample_env (\<lambda>xml. Inr ()) (\<lambda>rq. Inl (Error []))) ''<Request/>'' = Inr None"
  by (simp add: evaluates_def evaluateCallBack_def sample_env_def)

text \<open>
  The theorem at three PDP fronts: a request factory that throws the dateTime
  parser's error, a PDP that returns no result, and a PDP that permits.
\<close>

theorem evaluates_never_throws_parse_errors_indeterminate_witness:
  "getRequestCtxWithRequest
     (sample_env (\<lambda>xml. Inl (Error ''Malformed dateTime value: not-a-date'')) (\<lambda>rq. Inr []))
     ''<Request/>'' = Inl (Error ''Malformed dateTime value: not-a-date'') \<and>
   evaluates
     (sample_env (\<lambda>xml. Inl (Error ''Malformed dateTime value: not-a-date'')) (\<lambda>rq. Inr []))
     ''<Request/>'' =
     Inr (Some \<lparr> obligations = ''[]'', attributes = ''[]'', decision = Some ''Indeterminate'',
                 reason = None,
                 message = Some ''Malformed dateTime value: not-a-date'' \<rparr>) \<and>
   evaluateCallBack (sample_env (\<lambda>xml. Inr ()) (\<lambda>rq. Inr [])) ''<Request/>'' =
     Inl (TypeError ''Cannot read properties of undefined (reading obligations)'') \<and>
   evaluates (sample_env (\<lambda>xml. Inr ()) (\<lambda>rq. Inr [])) ''<Request/>'' = Inr None \<and>
   evaluateCallBack
     (sample_env (\<lambda>xml. Inr ())
        (\<lambda>rq. Inr [\<lparr> rc_obligations = None, rc_decision = 0, rc_attributes = (),
                       rc_status = None \<rparr>]))
     ''<Request/>'' =
     Inr \<lparr> obligations = ''[]'', attributes = ''[]'', decision = Some ''Permit'',
           reason = None, message = None \<rparr> \<and>
   evaluates
     (sample_env (\<lambda>xml. Inr ())
        (\<lambda>rq. Inr [\<lparr> rc_obligations = None, rc_decision = 0, rc_attributes = (),
                       rc_status = None \<rparr>]))
     ''<Request/>'' =
     Inr (Some \<lparr> obligations = ''[]'', attributes = ''[]'', decision = Some ''Permit'',
                 reason = None, message = None \<rparr>)"
  (is "?parse \<and> evaluates ?env1 ?rq = Inr (Some ?ind) \<and> evaluateCallBack ?env2 ?rq = Inl ?te \<and>
       ?undef \<and> evaluateCallBack ?env3 ?rq = Inr ?permit \<and> ?some")
proof -
  have parse: "?parse" by (simp add: sample_env_def)
  have thrown: "evaluateCallBack ?env2 ?rq = Inl ?te"
    by (simp add: evaluateCallBack_def sample_env_def)
  have permit: "evaluateCallBack ?env3 ?rq = Inr ?permit"
    by (simp add: evaluateCallBack_def sample_env_def getFullObligationsFromPolicy_def
        parseRes_def codes_0_to_6_def)
  note t1 = evaluates_never_throws_parse_errors_indeterminate[of ?env1 ?rq
      "Error ''Malformed dateTime value: not-a-date''"]
  note t2 = evaluates_never_throws_parse_errors_indeterminate[of ?env2 ?rq _ _ ?te]
  note t3 = evaluates_never_throws_parse_errors_indeterminate[of ?env3 ?rq _ ?permit]
  from t1 parse have ind: "evaluates ?env1 ?rq = Inr (Some ?ind)"
    by (simp add: indeterminate_response_def)
  from t2 thrown have undef: "?undef" by blast
  from t3 permit have some: "?some" by blast
  from parse ind thrown undef permit some show ?thesis by blast
qed

end
